theory Spec2Isabelle
  imports Main "HOL-Library.Word"
begin

section \<open>JavaScript strings\<close>

text \<open>
  A JavaScript string is a sequence of UTF-16 code units. String literals of the source
  are ASCII; \<open>js\<close> turns an ASCII literal into its code units.
\<close>

type_synonym cu = "16 word"
type_synonym jsstring = "cu list"
type_synonym byte = "8 word"

definition js :: "string \<Rightarrow> jsstring" where
  "js s = map of_char s"

definition chLess :: cu where
  "chLess = 0x3C"

definition chGreater :: cu where
  "chGreater = 0x3E"

definition chDQuote :: cu where
  "chDQuote = 0x22"

definition chSQuote :: cu where
  "chSQuote = 0x27"

text \<open>
  The characters \<open>String.prototype.trim\<close> removes: WhiteSpace (TAB, VT, FF, SP, NBSP,
  ZWNBSP and the Unicode space separators) and LineTerminator (LF, CR, LS, PS).
\<close>

definition isLineTerminator :: "cu \<Rightarrow> bool" where
  "isLineTerminator c \<longleftrightarrow> c = 0x000A \<or> c = 0x000D \<or> c = 0x2028 \<or> c = 0x2029"

definition isWhiteSpace :: "cu \<Rightarrow> bool" where
  "isWhiteSpace c \<longleftrightarrow>
     c = 0x0009 \<or> c = 0x000B \<or> c = 0x000C \<or> c = 0x0020 \<or> c = 0x00A0 \<or> c = 0xFEFF \<or>
     c = 0x1680 \<or> (0x2000 \<le> c \<and> c \<le> 0x200A) \<or> c = 0x202F \<or> c = 0x205F \<or> c = 0x3000"

definition isTrimmed :: "cu \<Rightarrow> bool" where
  "isTrimmed c \<longleftrightarrow> isWhiteSpace c \<or> isLineTerminator c"

definition trim :: "jsstring \<Rightarrow> jsstring" where
  "trim s = rev (dropWhile isTrimmed (rev (dropWhile isTrimmed s)))"

section \<open>The regular expressions of the address parser\<close>

text \<open>
  The two patterns \<^verbatim>\<open>/.*<(.*)>/\<close> and \<^verbatim>\<open>/(.*)<.*>/\<close> are built from a greedy
  \<^verbatim>\<open>.*\<close> and literal characters. A pattern is modelled as a backtracking matcher in
  continuation style: \<open>dotStar k\<close> lets \<^verbatim>\<open>.*\<close> take as many characters as possible
  (never a line terminator, as there is no \<^verbatim>\<open>s\<close> flag) and gives one back at a time
  until the rest of the pattern \<open>k\<close> matches; it returns what \<^verbatim>\<open>.*\<close> consumed and the
  result of \<open>k\<close>. \<open>lit c k\<close> matches the character \<open>c\<close> and goes on with \<open>k\<close>.
\<close>

fun dotStar :: "(jsstring \<Rightarrow> 'a option) \<Rightarrow> jsstring \<Rightarrow> (jsstring \<times> 'a) option" where
  "dotStar k [] = map_option (Pair []) (k [])"
| "dotStar k (c # r) =
     (case (if isLineTerminator c then None else dotStar k r) of
        Some (m, x) \<Rightarrow> Some (c # m, x)
      | None \<Rightarrow> map_option (Pair []) (k (c # r)))"

definition lit :: "cu \<Rightarrow> (jsstring \<Rightarrow> 'a option) \<Rightarrow> jsstring \<Rightarrow> 'a option" where
  "lit c k s = (case s of [] \<Rightarrow> None | d # r \<Rightarrow> if d = c then k r else None)"

text \<open>
  The pattern with both groups: the text of the first \<^verbatim>\<open>.*\<close>, the text of the second
  \<^verbatim>\<open>.*\<close> and the input that follows the match.
\<close>

definition bracketPattern :: "jsstring \<Rightarrow> (jsstring \<times> jsstring \<times> jsstring) option" where
  "bracketPattern = dotStar (lit chLess (dotStar (lit chGreater Some)))"

text \<open>
  \<open>String.prototype.replace\<close> with a regular expression without the \<^verbatim>\<open>g\<close> flag: the
  leftmost position where the pattern matches is replaced, once. The matcher \<open>m\<close> returns
  the replacement text and the input after the match.
\<close>

fun replace :: "(jsstring \<Rightarrow> (jsstring \<times> jsstring) option) \<Rightarrow> jsstring \<Rightarrow> jsstring" where
  "replace m [] = (case m [] of Some (rep, rest) \<Rightarrow> rep @ rest | None \<Rightarrow> [])"
| "replace m (c # r) =
     (case m (c # r) of Some (rep, rest) \<Rightarrow> rep @ rest | None \<Rightarrow> c # replace m r)"

text \<open>\<^verbatim>\<open>.replace(/.*<(.*)>/, '$1')\<close>: the match is replaced by its group.\<close>

definition replaceEmailGroup :: "jsstring \<Rightarrow> jsstring" where
  "replaceEmailGroup = replace (\<lambda>s. map_option (\<lambda>(pre, mid, rest). (mid, rest)) (bracketPattern s))"

text \<open>\<^verbatim>\<open>.replace(/(.*)<.*>/, '$1')\<close>: the match is replaced by what precedes the bracket.\<close>

definition replaceNameGroup :: "jsstring \<Rightarrow> jsstring" where
  "replaceNameGroup = replace (\<lambda>s. map_option (\<lambda>(pre, mid, rest). (pre, rest)) (bracketPattern s))"

text \<open>
  \<^verbatim>\<open>.replaceAll(/^"|"$/g, '')\<close> and its single-quote twin: without the \<^verbatim>\<open>m\<close> flag
  \<^verbatim>\<open>^\<close> is the start and \<^verbatim>\<open>$\<close> the end of the input. Matches are found left to right
  and do not overlap, so a quote at index 0 is removed first, and a quote at the last index
  is removed when it is not that same character.
\<close>

definition stripQuote :: "cu \<Rightarrow> jsstring \<Rightarrow> jsstring" where
  "stripQuote q s =
     (let s1 = (case s of [] \<Rightarrow> [] | c # r \<Rightarrow> if c = q then r else s)
      in if s1 \<noteq> [] \<and> last s1 = q then butlast s1 else s1)"

section \<open>Address parsing\<close>

definition extractEmailFromAddressString :: "jsstring \<Rightarrow> jsstring" where
  "extractEmailFromAddressString address = trim (replaceEmailGroup (trim address))"

definition extractNameFromAddressString :: "jsstring \<Rightarrow> jsstring" where
  "extractNameFromAddressString address =
     trim (stripQuote chSQuote (trim (stripQuote chDQuote (trim (replaceNameGroup (trim address))))))"

section \<open>Data model\<close>

text \<open>
  \<open>Address\<close> is nodemailer's \<^verbatim>\<open>Mail.Address\<close>; \<open>EmailAddress\<close> is the address of the
  wire schema, whose \<open>name\<close> is optional (\<open>None\<close> is \<^verbatim>\<open>undefined\<close>).
\<close>

record Address =
  address :: jsstring
  name :: jsstring

record EmailAddress =
  email :: jsstring
  name :: "jsstring option"

text \<open>An address given by the host: a string or an object; a field holds one or a list.\<close>

datatype AddressLike = AddrString jsstring | AddrObject Address

datatype AddressField = One AddressLike | Many "AddressLike list"

text \<open>
  An attachment of the host (nodemailer's type): \<open>filename\<close> and \<open>content\<close> are optional
  (\<open>None\<close> is a missing field, \<^verbatim>\<open>undefined\<close> or, for the filename, \<^verbatim>\<open>false\<close>); the
  content is a string, a \<^verbatim>\<open>Buffer\<close> or a readable stream. \<open>Attachment\<close> is the attachment
  of the wire schema.
\<close>

datatype Content = ContentString jsstring | ContentBuffer "byte list" | ContentStream

record MailAttachment =
  filename :: "jsstring option"
  content :: "Content option"

record Attachment =
  content :: "byte list"
  filename :: jsstring

text \<open>
  A text or html body: a string, or an object with the result of its \<^verbatim>\<open>toString\<close> method
  (\<open>None\<close> when it has none).
\<close>

datatype Body = BodyString jsstring | BodyObject "jsstring option"

text \<open>
  \<^verbatim>\<open>Mail.Headers\<close>: an object whose values are strings, lists of strings or prepared
  values, or a list of key/value objects.
\<close>

datatype HeaderValue = HeaderString jsstring | HeaderList "jsstring list" | HeaderPrepared jsstring

datatype Headers = HeadersObject "(jsstring \<times> HeaderValue) list" | HeadersArray "(jsstring \<times> jsstring) list"

text \<open>The message of the host (\<^verbatim>\<open>SendEmailOptions\<close>), fields prefixed \<open>m_\<close>; \<open>None\<close> is an absent field.\<close>

record SendEmailOptions =
  m_from :: "AddressLike option"
  m_to :: "AddressField option"
  m_subject :: "jsstring option"
  m_text :: "Body option"
  m_html :: "Body option"
  m_replyTo :: "AddressField option"
  m_headers :: "Headers option"
  m_attachments :: "MailAttachment list option"

text \<open>
  The wire payload (\<^verbatim>\<open>SweegoSendEmailOptions\<close>), fields prefixed \<open>p_\<close>; the fields the
  mapping never sets are left out.
\<close>

record SweegoSendEmailOptions =
  p_provider :: jsstring
  p_channel :: jsstring
  p_recipients :: "EmailAddress list"
  p_from :: EmailAddress
  p_subject :: jsstring
  p_attachments :: "Attachment list option"
  p_dry_run :: "bool option"
  p_headers :: "(jsstring \<times> jsstring) list option"
  p_message_txt :: "jsstring option"
  p_message_html :: "jsstring option"
  p_reply_to :: "EmailAddress option"

text \<open>
  What a call can throw: the \<^verbatim>\<open>APIError\<close> of the adapter with its message and status
  code, a \<^verbatim>\<open>TypeError\<close> of the runtime, a failed \<^verbatim>\<open>fetch\<close> and a body that is not JSON.
\<close>

datatype js_error = APIError jsstring nat | TypeError | FetchFailed | SyntaxError

text \<open>The vendor's answers. \<open>None\<close> in an entry is \<^verbatim>\<open>null\<close> or a missing field.\<close>

record DetailEntry =
  msg :: "jsstring option"
  type :: "jsstring option"

text \<open>
  The \<^verbatim>\<open>detail\<close> field of an error body: missing, one of the falsy JSON values, a list of
  entries, or another truthy value (which has no \<^verbatim>\<open>forEach\<close>).
\<close>

datatype Detail =
  DetailMissing | DetailNull | DetailFalse | DetailZero | DetailEmptyString
  | DetailArray "DetailEntry list" | DetailOther

text \<open>
  A JSON body, whatever \<^verbatim>\<open>res.json()\<close> can give: an object of the success shape (which
  has no \<^verbatim>\<open>detail\<close>), an object of the error shape, the value \<^verbatim>\<open>null\<close>, or another value
  that is no object (a number, a string, a boolean or a list), whose \<^verbatim>\<open>detail\<close> property is
  \<^verbatim>\<open>undefined\<close>. The source casts the body to its types and validates nothing.
\<close>

record SweegoSuccess =
  channel :: jsstring
  provider :: jsstring
  swg_uids :: "(jsstring \<times> jsstring) list"
  transaction_id :: jsstring

datatype SweegoResponse = Success SweegoSuccess | Error Detail | JsonNull | JsonOther

record Request =
  url :: jsstring
  http_method :: jsstring
  header_Api_Key :: jsstring
  header_Content_Type :: jsstring
  body :: SweegoSendEmailOptions

text \<open>A response; \<open>json = None\<close> is a body that does not parse as JSON.\<close>

record Response =
  status :: nat
  statusText :: jsstring
  json :: "SweegoResponse option"

section \<open>Encoding a string into a Buffer\<close>

text \<open>
  \<^verbatim>\<open>Buffer.from(string)\<close> encodes in UTF-8: a surrogate pair is one code point of four
  bytes, and a surrogate without its partner is encoded as U+FFFD.
\<close>

definition isHighSurrogate :: "cu \<Rightarrow> bool" where
  "isHighSurrogate c \<longleftrightarrow> 0xD800 \<le> c \<and> c \<le> 0xDBFF"

definition isLowSurrogate :: "cu \<Rightarrow> bool" where
  "isLowSurrogate c \<longleftrightarrow> 0xDC00 \<le> c \<and> c \<le> 0xDFFF"

definition utf8Encode :: "nat \<Rightarrow> byte list" where
  "utf8Encode cp =
     (if cp < 0x80 then [of_nat cp]
      else if cp < 0x800 then [of_nat (0xC0 + cp div 0x40), of_nat (0x80 + cp mod 0x40)]
      else if cp < 0x10000 then
        [of_nat (0xE0 + cp div 0x1000), of_nat (0x80 + cp div 0x40 mod 0x40), of_nat (0x80 + cp mod 0x40)]
      else
        [of_nat (0xF0 + cp div 0x40000), of_nat (0x80 + cp div 0x1000 mod 0x40),
         of_nat (0x80 + cp div 0x40 mod 0x40), of_nat (0x80 + cp mod 0x40)])"

fun Buffer_from :: "jsstring \<Rightarrow> byte list" where
  "Buffer_from [] = []"
| "Buffer_from (c # r) =
     (if isHighSurrogate c then
        (case r of
           d # r' \<Rightarrow>
             if isLowSurrogate d
             then utf8Encode (0x10000 + (unat c - 0xD800) * 0x400 + (unat d - 0xDC00)) @ Buffer_from r'
             else utf8Encode 0xFFFD @ Buffer_from r
         | [] \<Rightarrow> utf8Encode 0xFFFD)
      else if isLowSurrogate c then utf8Encode 0xFFFD @ Buffer_from r
      else utf8Encode (unat c) @ Buffer_from r)"

section \<open>Decoding a Buffer\<close>

text \<open>
  \<^verbatim>\<open>buf.toString()\<close> decodes UTF-8: a well-formed sequence of one to four bytes gives
  its code point, as one code unit or as a surrogate pair; a byte that cannot start or
  continue a sequence gives U+FFFD, and decoding goes on at the byte that did not fit.
  The second byte of a sequence is bounded so that overlong forms, surrogates and code
  points above U+10FFFF are not decoded.
\<close>

definition isContinuation :: "byte \<Rightarrow> bool" where
  "isContinuation b \<longleftrightarrow> 0x80 \<le> b \<and> b \<le> 0xBF"

text \<open>The code units of a code point.\<close>

definition utf16 :: "nat \<Rightarrow> jsstring" where
  "utf16 cp =
     (if cp < 0x10000 then [of_nat cp]
      else [of_nat (0xD800 + (cp - 0x10000) div 0x400), of_nat (0xDC00 + (cp - 0x10000) mod 0x400)])"

fun Buffer_toString :: "byte list \<Rightarrow> jsstring" where
  "Buffer_toString [] = []"
| "Buffer_toString (b # bs) =
     (if b \<le> 0x7F then of_nat (unat b) # Buffer_toString bs
      else if 0xC2 \<le> b \<and> b \<le> 0xDF then
        (case bs of
           [] \<Rightarrow> [0xFFFD]
         | b1 # r1 \<Rightarrow>
             if isContinuation b1
             then utf16 ((unat b - 0xC0) * 0x40 + (unat b1 - 0x80)) @ Buffer_toString r1
             else 0xFFFD # Buffer_toString (b1 # r1))
      else if 0xE0 \<le> b \<and> b \<le> 0xEF then
        (case bs of
           [] \<Rightarrow> [0xFFFD]
         | b1 # r1 \<Rightarrow>
             if (if b = 0xE0 then 0xA0 else 0x80) \<le> b1 \<and> b1 \<le> (if b = 0xED then 0x9F else 0xBF) then
               (case r1 of
                  [] \<Rightarrow> [0xFFFD]
                | b2 # r2 \<Rightarrow>
                    if isContinuation b2
                    then utf16 ((unat b - 0xE0) * 0x1000 + (unat b1 - 0x80) * 0x40 + (unat b2 - 0x80))
                         @ Buffer_toString r2
                    else 0xFFFD # Buffer_toString (b2 # r2))
             else 0xFFFD # Buffer_toString (b1 # r1))
      else if 0xF0 \<le> b \<and> b \<le> 0xF4 then
        (case bs of
           [] \<Rightarrow> [0xFFFD]
         | b1 # r1 \<Rightarrow>
             if (if b = 0xF0 then 0x90 else 0x80) \<le> b1 \<and> b1 \<le> (if b = 0xF4 then 0x8F else 0xBF) then
               (case r1 of
                  [] \<Rightarrow> [0xFFFD]
                | b2 # r2 \<Rightarrow>
                    if isContinuation b2 then
                      (case r2 of
                         [] \<Rightarrow> [0xFFFD]
                       | b3 # r3 \<Rightarrow>
                           if isContinuation b3
                           then utf16 ((unat b - 0xF0) * 0x40000 + (unat b1 - 0x80) * 0x1000
                                       + (unat b2 - 0x80) * 0x40 + (unat b3 - 0x80))
                                @ Buffer_toString r3
                           else 0xFFFD # Buffer_toString (b3 # r3))
                    else 0xFFFD # Buffer_toString (b2 # r2))
             else 0xFFFD # Buffer_toString (b1 # r1))
      else 0xFFFD # Buffer_toString bs)"


text \<open>A well-formed string: every surrogate is half of a pair, high before low.\<close>

fun wellFormed :: "jsstring \<Rightarrow> bool" where
  "wellFormed [] = True"
| "wellFormed (c # r) =
     (if isHighSurrogate c then (case r of d # r' \<Rightarrow> isLowSurrogate d \<and> wellFormed r' | [] \<Rightarrow> False)
      else \<not> isLowSurrogate c \<and> wellFormed r)"

section \<open>Mapping the message\<close>

text \<open>Truthiness of an optional string: \<^verbatim>\<open>undefined\<close>, \<^verbatim>\<open>null\<close> and \<^verbatim>\<open>''\<close> are falsy.\<close>

definition truthy :: "jsstring option \<Rightarrow> bool" where
  "truthy v = (case v of None \<Rightarrow> False | Some s \<Rightarrow> s \<noteq> [])"

text \<open>Truthiness of an attachment's content: a Buffer or a stream is an object, hence truthy.\<close>

definition truthyContent :: "Content option \<Rightarrow> bool" where
  "truthyContent v = (case v of None \<Rightarrow> False | Some (ContentString s) \<Rightarrow> s \<noteq> [] | Some _ \<Rightarrow> True)"

text \<open>The name of an address string: \<^verbatim>\<open>undefined\<close> when the extraction gives the string back.\<close>

definition nameOfString :: "jsstring \<Rightarrow> jsstring option" where
  "nameOfString s =
     (if extractNameFromAddressString s = s then None else Some (extractNameFromAddressString s))"

definition nameOfObject :: "Address \<Rightarrow> jsstring option" where
  "nameOfObject a = (if Address.name a = address a then None else Some (Address.name a))"

definition mapFromAddress :: "AddressLike option \<Rightarrow> jsstring \<Rightarrow> jsstring \<Rightarrow> EmailAddress" where
  "mapFromAddress addr defaultFromName defaultFromAddress =
     (case addr of
        None \<Rightarrow> \<lparr>email = defaultFromAddress, name = Some defaultFromName\<rparr>
      | Some (AddrString s) \<Rightarrow>
          if s = [] then \<lparr>email = defaultFromAddress, name = Some defaultFromName\<rparr>
          else \<lparr>email = extractEmailFromAddressString s, name = nameOfString s\<rparr>
      | Some (AddrObject a) \<Rightarrow>
          \<lparr>email = extractEmailFromAddressString (address a), name = nameOfObject a\<rparr>)"

text \<open>The callback of \<^verbatim>\<open>addresses.map\<close> in \<open>mapAddresses\<close>.\<close>

definition mapAddress :: "AddressLike \<Rightarrow> EmailAddress" where
  "mapAddress a =
     (case a of
        AddrString s \<Rightarrow> \<lparr>email = extractEmailFromAddressString s, name = nameOfString s\<rparr>
      | AddrObject b \<Rightarrow> \<lparr>email = extractEmailFromAddressString (address b), name = nameOfObject b\<rparr>)"

definition mapAddresses :: "AddressField option \<Rightarrow> EmailAddress list" where
  "mapAddresses addresses =
     (case addresses of
        None \<Rightarrow> []
      | Some (One (AddrString s)) \<Rightarrow>
          if s = [] then []
          else [\<lparr>email = extractEmailFromAddressString s, name = nameOfString s\<rparr>]
      | Some (Many as) \<Rightarrow> map mapAddress as
      | Some (One (AddrObject a)) \<Rightarrow>
          [\<lparr>email = extractEmailFromAddressString (address a), name = nameOfObject a\<rparr>])"

text \<open>The callback of \<^verbatim>\<open>attachments.map\<close> in \<open>mapAttachments\<close>; a throw is \<open>Inl\<close>.\<close>

definition mapAttachment :: "MailAttachment \<Rightarrow> js_error + Attachment" where
  "mapAttachment attachment =
     (if \<not> truthy (MailAttachment.filename attachment) \<or> \<not> truthyContent (MailAttachment.content attachment)
      then Inl (APIError (js ''Attachment is missing filename or content'') 400)
      else
        (case (MailAttachment.filename attachment, MailAttachment.content attachment) of
           (Some f, Some (ContentString s)) \<Rightarrow> Inr \<lparr>content = Buffer_from s, filename = f\<rparr>
         | (Some f, Some (ContentBuffer b)) \<Rightarrow> Inr \<lparr>content = b, filename = f\<rparr>
         | _ \<Rightarrow> Inl (APIError (js ''Attachment content must be a string or a buffer'') 400)))"

text \<open>\<^verbatim>\<open>Array.prototype.map\<close> with a callback that may throw: the first throw ends the loop.\<close>

fun mapThrowing :: "('a \<Rightarrow> js_error + 'b) \<Rightarrow> 'a list \<Rightarrow> js_error + 'b list" where
  "mapThrowing f [] = Inr []"
| "mapThrowing f (x # xs) =
     (case f x of
        Inl e \<Rightarrow> Inl e
      | Inr y \<Rightarrow> (case mapThrowing f xs of Inl e \<Rightarrow> Inl e | Inr ys \<Rightarrow> Inr (y # ys)))"

definition mapAttachments :: "MailAttachment list option \<Rightarrow> js_error + Attachment list option" where
  "mapAttachments attachments =
     (case attachments of
        None \<Rightarrow> Inr None
      | Some as \<Rightarrow> (case mapThrowing mapAttachment as of Inl e \<Rightarrow> Inl e | Inr bs \<Rightarrow> Inr (Some bs)))"

text \<open>\<^verbatim>\<open>Array.prototype.join\<close> on a list of strings.\<close>

fun join :: "jsstring \<Rightarrow> jsstring list \<Rightarrow> jsstring" where
  "join sep [] = []"
| "join sep [x] = x"
| "join sep (x # y # r) = x @ sep @ join sep (y # r)"

text \<open>
  Writing a key of the result object: a key already there keeps its place and takes the
  new value.
\<close>

fun setKey :: "jsstring \<Rightarrow> jsstring \<Rightarrow> (jsstring \<times> jsstring) list \<Rightarrow> (jsstring \<times> jsstring) list" where
  "setKey k v [] = [(k, v)]"
| "setKey k v ((k', v') # r) = (if k' = k then (k, v) # r else (k', v') # setKey k v r)"

fun headerEntries :: "(jsstring \<times> HeaderValue) list \<Rightarrow> (jsstring \<times> jsstring) list \<Rightarrow> (jsstring \<times> jsstring) list" where
  "headerEntries [] sweegoHeaders = sweegoHeaders"
| "headerEntries ((key, v) # r) sweegoHeaders =
     headerEntries r
       (case v of
          HeaderString s \<Rightarrow> setKey key s sweegoHeaders
        | HeaderList l \<Rightarrow> setKey key (join (js '', '') l) sweegoHeaders
        | HeaderPrepared _ \<Rightarrow> sweegoHeaders)"

definition messageHeadersToSweegoHeaders :: "Headers \<Rightarrow> (jsstring \<times> jsstring) list" where
  "messageHeadersToSweegoHeaders headers =
     (case headers of HeadersObject es \<Rightarrow> headerEntries es [] | HeadersArray _ \<Rightarrow> [])"

text \<open>\<^verbatim>\<open>body.toString?.() || ''\<close>.\<close>

definition bodyToString :: "Body \<Rightarrow> jsstring" where
  "bodyToString b = (case b of BodyString s \<Rightarrow> s | BodyObject None \<Rightarrow> [] | BodyObject (Some s) \<Rightarrow> s)"

definition truthyBody :: "Body option \<Rightarrow> bool" where
  "truthyBody b = (case b of None \<Rightarrow> False | Some (BodyString s) \<Rightarrow> s \<noteq> [] | Some (BodyObject _) \<Rightarrow> True)"

text \<open>
  The reply-to part of \<open>mapPayloadEmailToSweegoEmail\<close>. A string other than the literal
  \<^verbatim>\<open>'string'\<close> reaches the last branch, where its \<^verbatim>\<open>address\<close> property is \<^verbatim>\<open>undefined\<close>
  and the call of \<^verbatim>\<open>trim\<close> on it throws a TypeError.
\<close>

definition mapReplyTo :: "AddressField option \<Rightarrow> SweegoSendEmailOptions \<Rightarrow> js_error + SweegoSendEmailOptions" where
  "mapReplyTo replyTo mail =
     (case replyTo of
        None \<Rightarrow> Inr mail
      | Some (One (AddrString s)) \<Rightarrow>
          if s = [] then Inr mail
          else if s = js ''string'' then
            Inr (mail\<lparr>p_reply_to := Some \<lparr>email = extractEmailFromAddressString s, name = nameOfString s\<rparr>\<rparr>)
          else Inl TypeError
      | Some (Many as) \<Rightarrow>
          (case mapAddresses (Some (Many as)) of
             [] \<Rightarrow> Inr mail
           | a # _ \<Rightarrow> Inr (mail\<lparr>p_reply_to := Some a\<rparr>))
      | Some (One (AddrObject a)) \<Rightarrow>
          Inr (mail\<lparr>p_reply_to :=
                 Some \<lparr>email = extractEmailFromAddressString (address a), name = nameOfObject a\<rparr>\<rparr>))"

definition mapPayloadEmailToSweegoEmail ::
  "SendEmailOptions \<Rightarrow> jsstring \<Rightarrow> jsstring \<Rightarrow> bool option \<Rightarrow> js_error + SweegoSendEmailOptions" where
  "mapPayloadEmailToSweegoEmail message defaultFromAddress defaultFromName dryRun =
     (case mapAttachments (m_attachments message) of
        Inl e \<Rightarrow> Inl e
      | Inr attachments \<Rightarrow>
          (let email0 =
                 \<lparr>p_provider = js ''sweego'',
                  p_channel = js ''email'',
                  p_recipients = mapAddresses (m_to message),
                  p_from = mapFromAddress (m_from message) defaultFromName defaultFromAddress,
                  p_subject = (case m_subject message of None \<Rightarrow> [] | Some s \<Rightarrow> s),
                  p_attachments = (case attachments of Some (a # as) \<Rightarrow> Some (a # as) | _ \<Rightarrow> None),
                  p_dry_run = None, p_headers = None, p_message_txt = None, p_message_html = None,
                  p_reply_to = None\<rparr>;
               email1 = (if dryRun = Some True then email0\<lparr>p_dry_run := Some True\<rparr> else email0);
               email2 = (case m_headers message of
                           None \<Rightarrow> email1
                         | Some h \<Rightarrow> email1\<lparr>p_headers := Some (messageHeadersToSweegoHeaders h)\<rparr>);
               email3 = (if truthyBody (m_text message)
                         then email2\<lparr>p_message_txt := map_option bodyToString (m_text message)\<rparr> else email2);
               email4 = (if truthyBody (m_html message)
                         then email3\<lparr>p_message_html := map_option bodyToString (m_html message)\<rparr> else email3)
           in mapReplyTo (m_replyTo message) email4))"

section \<open>Sending\<close>

text \<open>The configuration the adapter is built with.\<close>

record SweegoAdapterArgs =
  apiKey :: jsstring
  defaultFromAddress :: jsstring
  defaultFromName :: jsstring
  dryRun :: "bool option"


text \<open>The decimal digits of a status code, as a template literal prints a number.\<close>

fun numberToString :: "nat \<Rightarrow> jsstring" where
  "numberToString n =
     (if n < 10 then [0x30 + of_nat n] else numberToString (n div 10) @ [0x30 + of_nat (n mod 10)])"

declare numberToString.simps [simp del]

text \<open>The \<^verbatim>\<open>forEach\<close> over the detail entries, with the index and the message built so far.\<close>

fun appendDetails :: "nat \<Rightarrow> DetailEntry list \<Rightarrow> jsstring \<Rightarrow> jsstring" where
  "appendDetails idx [] formattedError = formattedError"
| "appendDetails idx (e # es) formattedError =
     appendDetails (Suc idx) es
       (if truthy (type e) \<and> truthy (msg e) then
          formattedError
          @ (if idx \<noteq> 0 then js ''; '' else js '' '')
          @ (if truthy (type e) \<and> type e \<noteq> Some (js ''null'')
             then js ''Type: \"'' @ (case type e of Some t \<Rightarrow> t | None \<Rightarrow> []) @ js ''\", '' else [])
          @ js ''Message: \"'' @ (case msg e of Some m \<Rightarrow> m | None \<Rightarrow> []) @ js ''\"''
        else formattedError)"

text \<open>
  The else branch of \<open>sendEmail\<close>: \<^verbatim>\<open>data.detail || []\<close> is the empty list for a missing or
  falsy detail; a truthy value that is no list has no \<^verbatim>\<open>forEach\<close>, and reading
  \<^verbatim>\<open>data.detail\<close> of the body \<^verbatim>\<open>null\<close> throws a TypeError.
\<close>

definition throwFormattedError :: "Response \<Rightarrow> SweegoResponse \<Rightarrow> js_error" where
  "throwFormattedError res data =
     (let formattedError = js ''Error sending email: '' @ numberToString (status res) @ js '' ''
                           @ statusText res @ js ''.''
      in case data of
           Success _ \<Rightarrow> APIError formattedError (status res)
         | Error (DetailArray es) \<Rightarrow> APIError (appendDetails 0 es formattedError) (status res)
         | Error DetailOther \<Rightarrow> TypeError
         | Error _ \<Rightarrow> APIError formattedError (status res)
         | JsonNull \<Rightarrow> TypeError
         | JsonOther \<Rightarrow> APIError formattedError (status res))"

text \<open>The request \<open>sendEmail\<close> passes to \<^verbatim>\<open>fetch\<close>: the URL, the headers and the payload as body.\<close>

definition fetchRequest :: "SweegoAdapterArgs \<Rightarrow> SweegoSendEmailOptions \<Rightarrow> Request" where
  "fetchRequest args sendEmailOptions =
     \<lparr>url = js ''https://api.sweego.io/send'', http_method = js ''POST'',
      header_Api_Key = apiKey args, header_Content_Type = js ''application/json'',
      body = sendEmailOptions\<rparr>"

text \<open>
  \<open>sendEmail\<close> with the network as a function \<open>fetch\<close>; the result is what the call returns
  or throws, and the list of requests it made.
\<close>

definition sendEmail ::
  "SweegoAdapterArgs \<Rightarrow> (Request \<Rightarrow> js_error + Response) \<Rightarrow> SendEmailOptions
     \<Rightarrow> (js_error + SweegoResponse) \<times> Request list" where
  "sendEmail args fetch message =
     (case mapPayloadEmailToSweegoEmail message (defaultFromAddress args) (defaultFromName args) (dryRun args) of
        Inl e \<Rightarrow> (Inl e, [])
      | Inr sendEmailOptions \<Rightarrow>
          (case fetch (fetchRequest args sendEmailOptions) of
             Inl e \<Rightarrow> (Inl e, [fetchRequest args sendEmailOptions])
           | Inr res \<Rightarrow>
               (case json res of
                  None \<Rightarrow> (Inl SyntaxError, [fetchRequest args sendEmailOptions])
                | Some data \<Rightarrow>
                    if status res = 200 then (Inr data, [fetchRequest args sendEmailOptions])
                    else (Inl (throwFormattedError res data), [fetchRequest args sendEmailOptions]))))"

section \<open>Example inputs\<close>

text \<open>The configuration and the message of the repository's test, without a sender.\<close>

definition demoArgs :: SweegoAdapterArgs where
  "demoArgs =
     \<lparr>apiKey = js ''test-api-key'', defaultFromAddress = js ''hello+default@zapal.tech'',
      defaultFromName = js ''Zapal'', dryRun = None\<rparr>"

definition demoMessage :: SendEmailOptions where
  "demoMessage =
     \<lparr>m_from = None, m_to = Some (One (AddrString (js ''\"Zapal\" <hello+to@zapal.tech>''))),
      m_subject = Some (js ''This was sent on init''),
      m_text = Some (BodyString (js ''This is my message body'')),
      m_html = None, m_replyTo = None, m_headers = None, m_attachments = None\<rparr>"

text \<open>The message of the repository's test \<^verbatim>\<open>should handle sending an email\<close>.\<close>

definition testMessage :: SendEmailOptions where
  "testMessage =
     \<lparr>m_from = Some (AddrString (js ''\"Zapal\" <hello+from@zapal.tech>'')),
      m_to = Some (One (AddrString (js ''\"Zapal\" <hello+to@zapal.tech>''))),
      m_subject = Some (js ''This was sent on init''),
      m_text = Some (BodyString (js ''This is my message body'')),
      m_html = Some (BodyString (js ''<p>This is my message body</p>'')),
      m_replyTo = None, m_headers = None, m_attachments = None\<rparr>"

text \<open>Attachments: one without a filename, one with text, one with bytes, one that is empty.\<close>

definition namelessAttachment :: MailAttachment where
  "namelessAttachment = \<lparr>MailAttachment.filename = None, MailAttachment.content = Some (ContentString (js ''hi''))\<rparr>"

definition textAttachment :: MailAttachment where
  "textAttachment =
     \<lparr>MailAttachment.filename = Some (js ''a.txt''), MailAttachment.content = Some (ContentString (js ''hi''))\<rparr>"

definition bufferAttachment :: MailAttachment where
  "bufferAttachment =
     \<lparr>MailAttachment.filename = Some (js ''b.bin''), MailAttachment.content = Some (ContentBuffer [0x00, 0xFF])\<rparr>"

definition emptyAttachment :: MailAttachment where
  "emptyAttachment =
     \<lparr>MailAttachment.filename = Some (js ''empty.txt''), MailAttachment.content = Some (ContentString [])\<rparr>"

text \<open>A vendor that answers every request with status 500 and a body whose detail is null.\<close>

definition response500 :: Response where
  "response500 = \<lparr>status = 500, statusText = js ''Internal Server Error'', json = Some (Error DetailNull)\<rparr>"

definition fetch500 :: "Request \<Rightarrow> js_error + Response" where
  "fetch500 req = Inr response500"

text \<open>A vendor that answers every request with status 500 and the body \<^verbatim>\<open>null\<close>.\<close>

definition responseNull :: Response where
  "responseNull = \<lparr>status = 500, statusText = js ''Internal Server Error'', json = Some JsonNull\<rparr>"

definition fetchNull :: "Request \<Rightarrow> js_error + Response" where
  "fetchNull req = Inr responseNull"

text \<open>
  A vendor's answer with status 422 and the given detail entries; an entry with both
  fields, and one whose type is null.
\<close>

definition response422 :: "DetailEntry list \<Rightarrow> Response" where
  "response422 es =
     \<lparr>status = 422, statusText = js ''Unprocessable Entity'', json = Some (Error (DetailArray es))\<rparr>"

definition badField :: DetailEntry where
  "badField = \<lparr>msg = Some (js ''bad field''), type = Some (js ''validation_error'')\<rparr>"

definition untyped :: DetailEntry where
  "untyped = \<lparr>msg = Some (js ''rejected''), type = None\<rparr>"

text \<open>Structured addresses with and without blanks around the address; a message with a reply-to list.\<close>

definition paddedAddress :: Address where
  "paddedAddress = \<lparr>address = js '' hello@zapal.tech '', name = js ''Zapal''\<rparr>"

definition plainAddress :: Address where
  "plainAddress = \<lparr>address = js ''hello@zapal.tech'', name = js ''Zapal''\<rparr>"

definition replyMessage :: SendEmailOptions where
  "replyMessage = demoMessage\<lparr>m_replyTo := Some (Many [AddrString (js ''Help <help@zapal.tech>''),
      AddrString (js ''other@zapal.tech'')])\<rparr>"

text \<open>Attachments whose text is not ASCII, and whose text is a high surrogate alone.\<close>

definition unicodeAttachment :: MailAttachment where
  "unicodeAttachment =
     \<lparr>MailAttachment.filename = Some (js ''u.txt''),
      MailAttachment.content = Some (ContentString [0x48, 0xE9, 0x20AC, 0xD83D, 0xDE00])\<rparr>"

definition loneSurrogateAttachment :: MailAttachment where
  "loneSurrogateAttachment =
     \<lparr>MailAttachment.filename = Some (js ''s.txt''), MailAttachment.content = Some (ContentString [0xD800])\<rparr>"

section \<open>Properties of the mapping\<close>

lemma mapReplyTo_from: "mapReplyTo r m = Inr p \<Longrightarrow> p_from p = p_from m"
  by (auto simp: mapReplyTo_def split: option.splits AddressField.splits AddressLike.splits if_splits list.splits)

lemma mapPayload_from:
  "mapPayloadEmailToSweegoEmail message da dn dr = Inr p \<Longrightarrow>
   p_from p = mapFromAddress (m_from message) dn da"
  by (auto simp: mapPayloadEmailToSweegoEmail_def Let_def dest!: mapReplyTo_from split: sum.splits option.splits)

lemma sendEmail_requests:
  "req \<in> set (snd (sendEmail args fetch message)) \<Longrightarrow>
   \<exists>p. mapPayloadEmailToSweegoEmail message (defaultFromAddress args) (defaultFromName args) (dryRun args) = Inr p
     \<and> req = fetchRequest args p"
  by (auto simp: sendEmail_def split: sum.splits option.splits if_splits)

lemma sendEmail_mapping_throws:
  "mapPayloadEmailToSweegoEmail message (defaultFromAddress args) (defaultFromName args) (dryRun args) = Inl e
   \<Longrightarrow> sendEmail args fetch message = (Inl e, [])"
  by (simp add: sendEmail_def)

lemma mapPayload_attachments_throw:
  "mapAttachments (m_attachments message) = Inl e \<Longrightarrow> mapPayloadEmailToSweegoEmail message da dn dr = Inl e"
  by (simp add: mapPayloadEmailToSweegoEmail_def)

lemma demo_payload:
  "\<exists>p. mapPayloadEmailToSweegoEmail demoMessage (defaultFromAddress demoArgs) (defaultFromName demoArgs)
          (dryRun demoArgs) = Inr p"
  by (simp add: mapPayloadEmailToSweegoEmail_def demoMessage_def mapAttachments_def Let_def mapReplyTo_def
      truthyBody_def)

text \<open>
  The repository's test: with \<^verbatim>\<open>dryRun: true\<close> the message is mapped to the body the test
  expects.
\<close>

lemma test_should_handle_sending_an_email:
  "mapPayloadEmailToSweegoEmail testMessage (js ''hello+default@zapal.tech'') (js ''Zapal'') (Some True)
     = Inr \<lparr>p_provider = js ''sweego'', p_channel = js ''email'',
             p_recipients = [\<lparr>email = js ''hello+to@zapal.tech'', name = Some (js ''Zapal'')\<rparr>],
             p_from = \<lparr>email = js ''hello+from@zapal.tech'', name = Some (js ''Zapal'')\<rparr>,
             p_subject = js ''This was sent on init'',
             p_attachments = None, p_dry_run = Some True, p_headers = None,
             p_message_txt = Some (js ''This is my message body''),
             p_message_html = Some (js ''<p>This is my message body</p>''),
             p_reply_to = None\<rparr>"
  by code_simp

text \<open>
  Claim C7. When the message has no \<open>from\<close>, the payload's \<open>from\<close> is the default address
  and the default name of the adapter's configuration: in every payload the mapping
  builds, and in the body of every request \<open>sendEmail\<close> makes.
\<close>

theorem absent_from_gives_defaults:
  "m_from message = None \<Longrightarrow>
   (\<forall>p. mapPayloadEmailToSweegoEmail message (defaultFromAddress args) (defaultFromName args) (dryRun args) = Inr p
      \<longrightarrow> p_from p = \<lparr>email = defaultFromAddress args, name = Some (defaultFromName args)\<rparr>) \<and>
   (\<forall>req \<in> set (snd (sendEmail args fetch message)).
      p_from (body req) = \<lparr>email = defaultFromAddress args, name = Some (defaultFromName args)\<rparr>)"
proof (intro conjI allI impI ballI)
  fix p
  assume "m_from message = None"
    and "mapPayloadEmailToSweegoEmail message (defaultFromAddress args) (defaultFromName args) (dryRun args) = Inr p"
  then show "p_from p = \<lparr>email = defaultFromAddress args, name = Some (defaultFromName args)\<rparr>"
    by (simp add: mapPayload_from mapFromAddress_def)
next
  fix req
  assume a: "m_from message = None" and "req \<in> set (snd (sendEmail args fetch message))"
  then obtain p where
    p: "mapPayloadEmailToSweegoEmail message (defaultFromAddress args) (defaultFromName args) (dryRun args) = Inr p"
    and r: "req = fetchRequest args p"
    using sendEmail_requests by blast
  show "p_from (body req) = \<lparr>email = defaultFromAddress args, name = Some (defaultFromName args)\<rparr>"
    using a p r by (simp add: mapPayload_from mapFromAddress_def fetchRequest_def)
qed

theorem absent_from_gives_defaults_witness:
  "m_from demoMessage = None \<and>
   (\<exists>p. mapPayloadEmailToSweegoEmail demoMessage (js ''hello+default@zapal.tech'') (js ''Zapal'') None = Inr p
      \<and> p_from p = \<lparr>email = js ''hello+default@zapal.tech'', name = Some (js ''Zapal'')\<rparr>)"
proof -
  have m: "m_from demoMessage = None" by (simp add: demoMessage_def)
  from demo_payload obtain p where
    p: "mapPayloadEmailToSweegoEmail demoMessage (defaultFromAddress demoArgs) (defaultFromName demoArgs)
          (dryRun demoArgs) = Inr p"
    by blast
  from absent_from_gives_defaults [OF m, of demoArgs] p
  have "p_from p = \<lparr>email = defaultFromAddress demoArgs, name = Some (defaultFromName demoArgs)\<rparr>"
    by blast
  with m p show ?thesis by (auto simp: demoArgs_def)
qed

section \<open>Properties of the Buffer encoding\<close>

declare Buffer_toString.simps(2) [simp del]

lemma byte_unat: "n < 256 \<Longrightarrow> unat (of_nat n :: byte) = n"
  by (simp add: unat_of_nat)

lemma byte_unat_add: "k + n < 256 \<Longrightarrow> unat (of_nat k + of_nat n :: byte) = k + n"
  using byte_unat [of "k + n"] by simp

lemma decode_encode_1:
  assumes "n < 0x80"
  shows "Buffer_toString (utf8Encode n @ rest) = utf16 n @ Buffer_toString rest"
proof -
  have u: "unat (of_nat n :: byte) = n" using assms by (simp add: byte_unat)
  show ?thesis
    using assms by (simp add: utf8Encode_def utf16_def Buffer_toString.simps(2) word_le_nat_alt u)
qed

lemma decode_encode_2:
  assumes "0x80 \<le> n" and "n < 0x800"
  shows "Buffer_toString (utf8Encode n @ rest) = utf16 n @ Buffer_toString rest"
proof -
  have r: "2 \<le> n div 0x40" "n div 0x40 < 0x20" using assms by simp_all
  have u: "unat (0xC0 + of_nat (n div 0x40) :: byte) = 0xC0 + n div 0x40"
    "unat (0x80 + of_nat (n mod 0x40) :: byte) = 0x80 + n mod 0x40"
    using r byte_unat_add [of "0xC0" "n div 0x40"] byte_unat_add [of "0x80" "n mod 0x40"] by simp_all
  show ?thesis
    using assms r
    by (simp add: utf8Encode_def Buffer_toString.simps(2) word_le_nat_alt u isContinuation_def utf16_def)
qed

lemma div4096: "n div 0x1000 = n div 0x40 div (0x40::nat)"
  by (simp add: div_mult2_eq [symmetric])

lemma div262144: "n div 0x40000 = n div 0x40 div 0x40 div (0x40::nat)"
  by (simp add: div_mult2_eq [symmetric])

lemma second_byte_E0: "0x800 \<le> n \<Longrightarrow> n div 0x1000 = 0 \<Longrightarrow> (0x20::nat) \<le> n div 0x40 mod 0x40"
proof -
  assume a: "0x800 \<le> n" "n div 0x1000 = 0"
  define q where "q = n div 0x40"
  from a(1) have "32 \<le> q" unfolding q_def by simp
  moreover from a(2) have "q div 0x40 = 0" unfolding q_def by (simp add: div4096)
  ultimately have "0x20 \<le> q mod 0x40" by simp
  then show ?thesis unfolding q_def .
qed

lemma second_byte_ED: "n < 0xD800 \<or> 0xDFFF < n \<Longrightarrow> n div 0x1000 = 13 \<Longrightarrow> n div 0x40 mod 0x40 \<le> (0x1F::nat)"
proof -
  assume a: "n < 0xD800 \<or> 0xDFFF < n" "n div 0x1000 = 13"
  define q where "q = n div 0x40"
  from a(1) have "q < 864 \<or> 896 \<le> q" unfolding q_def by auto
  moreover from a(2) have "q div 0x40 = 13" unfolding q_def by (simp add: div4096)
  moreover have "q = q div 0x40 * 0x40 + q mod 0x40" "q mod 0x40 < 0x40" by simp_all
  ultimately have "q mod 0x40 \<le> 0x1F" by linarith
  then show ?thesis unfolding q_def .
qed

lemma three_bytes_value: "n div 0x1000 * 0x1000 + n div 0x40 mod 0x40 * 0x40 + n mod 0x40 = (n::nat)"
proof -
  define q where "q = n div 0x40"
  have "n = q * 0x40 + n mod 0x40" unfolding q_def by simp
  moreover have "q = q div 0x40 * 0x40 + q mod 0x40" by simp
  ultimately have "q div 0x40 * 0x1000 + q mod 0x40 * 0x40 + n mod 0x40 = n" by linarith
  then show ?thesis unfolding q_def by (simp add: div4096)
qed

lemma four_bytes_value: "n div 0x40000 * 0x40000 + n div 0x1000 mod 0x40 * 0x1000 + n div 0x40 mod 0x40 * 0x40 + n mod 0x40 = (n::nat)"
proof -
  define q where "q = n div 0x40"
  define p where "p = q div 0x40"
  have "n = q * 0x40 + n mod 0x40" unfolding q_def by simp
  moreover have "q = p * 0x40 + q mod 0x40" unfolding p_def by simp
  moreover have "p = p div 0x40 * 0x40 + p mod 0x40" by simp
  ultimately have "p div 0x40 * 0x40000 + p mod 0x40 * 0x1000 + q mod 0x40 * 0x40 + n mod 0x40 = n" by linarith
  then show ?thesis unfolding p_def q_def by (simp add: div4096 div262144)
qed

lemma second_byte_F0: "0x10000 \<le> n \<Longrightarrow> n div 0x40000 = 0 \<Longrightarrow> (0x10::nat) \<le> n div 0x1000 mod 0x40"
proof -
  assume a: "0x10000 \<le> n" "n div 0x40000 = 0"
  define p where "p = n div 0x1000"
  from a(1) have "16 \<le> p" unfolding p_def by simp
  moreover from a(2) have "p div 0x40 = 0" unfolding p_def by (simp add: div262144 div4096)
  ultimately have "0x10 \<le> p mod 0x40" by simp
  then show ?thesis unfolding p_def .
qed

lemma second_byte_F4: "n < 0x110000 \<Longrightarrow> n div 0x40000 = 4 \<Longrightarrow> n div 0x1000 mod 0x40 \<le> (0xF::nat)"
proof -
  assume a: "n < 0x110000" "n div 0x40000 = 4"
  define p where "p = n div 0x1000"
  from a(1) have "p < 272" unfolding p_def by simp
  moreover from a(2) have "p div 0x40 = 4" unfolding p_def by (simp add: div262144 div4096)
  moreover have "p = p div 0x40 * 0x40 + p mod 0x40" by simp
  ultimately have "p mod 0x40 \<le> 0xF" by linarith
  then show ?thesis unfolding p_def .
qed

lemma first_byte_F4: "n < 0x110000 \<Longrightarrow> n div 0x40000 < (5::nat)"
  by simp


lemma decode_encode_3:
  assumes "0x800 \<le> n" and "n < 0x10000" and "n < 0xD800 \<or> 0xDFFF < n"
  shows "Buffer_toString (utf8Encode n @ rest) = utf16 n @ Buffer_toString rest"
proof -
  have r: "n div 0x1000 < 0x10" using assms by simp
  have u: "unat (0xE0 + of_nat (n div 0x1000) :: byte) = 0xE0 + n div 0x1000"
    "unat (0x80 + of_nat (n div 0x40 mod 0x40) :: byte) = 0x80 + n div 0x40 mod 0x40"
    "unat (0x80 + of_nat (n mod 0x40) :: byte) = 0x80 + n mod 0x40"
    using r byte_unat_add [of "0xE0" "n div 0x1000"] byte_unat_add [of "0x80" "n div 0x40 mod 0x40"]
      byte_unat_add [of "0x80" "n mod 0x40"] by simp_all
  have m: "n mod 0x40 \<le> 0x3F" "n div 0x40 mod 0x40 \<le> 0x3F"
    by (simp_all add: less_Suc_eq_le [symmetric])
  show ?thesis
    using assms r m second_byte_E0 [OF assms(1)] second_byte_ED [OF assms(3)] three_bytes_value [of n]
    by (simp add: utf8Encode_def Buffer_toString.simps(2) word_le_nat_alt word_unat_eq_iff u
        isContinuation_def utf16_def)
qed

lemma decode_encode_4:
  assumes "0x10000 \<le> n" and "n < 0x110000"
  shows "Buffer_toString (utf8Encode n @ rest) = utf16 n @ Buffer_toString rest"
proof -
  have r: "n div 0x40000 < 5" using assms by simp
  have u: "unat (0xF0 + of_nat (n div 0x40000) :: byte) = 0xF0 + n div 0x40000"
    "unat (0x80 + of_nat (n div 0x1000 mod 0x40) :: byte) = 0x80 + n div 0x1000 mod 0x40"
    "unat (0x80 + of_nat (n div 0x40 mod 0x40) :: byte) = 0x80 + n div 0x40 mod 0x40"
    "unat (0x80 + of_nat (n mod 0x40) :: byte) = 0x80 + n mod 0x40"
    using r byte_unat_add [of "0xF0" "n div 0x40000"] byte_unat_add [of "0x80" "n div 0x1000 mod 0x40"]
      byte_unat_add [of "0x80" "n div 0x40 mod 0x40"] byte_unat_add [of "0x80" "n mod 0x40"] by simp_all
  have m: "n mod 0x40 \<le> 0x3F" "n div 0x40 mod 0x40 \<le> 0x3F" "n div 0x1000 mod 0x40 \<le> 0x3F"
    by (simp_all add: less_Suc_eq_le [symmetric])
  show ?thesis
    using assms r m second_byte_F0 [OF assms(1)] second_byte_F4 [OF assms(2)] four_bytes_value [of n]
    by (simp add: utf8Encode_def Buffer_toString.simps(2) word_le_nat_alt word_unat_eq_iff u
        isContinuation_def)
qed

lemma decode_encode:
  assumes "n < 0x110000" and "n < 0xD800 \<or> 0xDFFF < n"
  shows "Buffer_toString (utf8Encode n @ rest) = utf16 n @ Buffer_toString rest"
proof -
  consider "n < 0x80" | "0x80 \<le> n" "n < 0x800" | "0x800 \<le> n" "n < 0x10000" | "0x10000 \<le> n"
    by linarith
  then show ?thesis
  proof cases
    case 1
    then show ?thesis by (rule decode_encode_1)
  next
    case 2
    then show ?thesis by (rule decode_encode_2)
  next
    case 3
    then show ?thesis using assms(2) by (rule decode_encode_3)
  next
    case 4
    then show ?thesis using assms(1) by (rule decode_encode_4)
  qed
qed

lemma utf16_unit:
  assumes "\<not> isHighSurrogate c" and "\<not> isLowSurrogate c"
  shows "unat c < 0x110000 \<and> (unat c < 0xD800 \<or> 0xDFFF < unat c) \<and> utf16 (unat c) = [c]"
proof -
  have "unat c < 2 ^ 16" using unsigned_less [of c] by simp
  then have b: "unat c < 0x10000" by simp
  from assms have "unat c < 0xD800 \<or> 0xDFFF < unat c"
    by (auto simp: isHighSurrogate_def isLowSurrogate_def word_le_nat_alt)
  with b show ?thesis by (simp add: utf16_def)
qed

lemma utf16_pair:
  assumes "isHighSurrogate c" and "isLowSurrogate d"
  defines "n \<equiv> 0x10000 + (unat c - 0xD800) * 0x400 + (unat d - 0xDC00)"
  shows "n < 0x110000 \<and> (n < 0xD800 \<or> 0xDFFF < n) \<and> utf16 n = [c, d]"
proof -
  from assms(1) have c: "0xD800 \<le> unat c" "unat c \<le> 0xDBFF"
    by (simp_all add: isHighSurrogate_def word_le_nat_alt)
  from assms(2) have d: "0xDC00 \<le> unat d" "unat d \<le> 0xDFFF"
    by (simp_all add: isLowSurrogate_def word_le_nat_alt)
  define h where "h = unat c - 0xD800"
  define l where "l = unat d - 0xDC00"
  have hl: "h < 0x400" "l < 0x400" "unat c = 0xD800 + h" "unat d = 0xDC00 + l"
    using c d by (simp_all add: h_def l_def)
  have n: "n = 0x10000 + (h * 0x400 + l)" by (simp add: n_def h_def l_def)
  have dm: "(h * 0x400 + l) div 0x400 = h" "(h * 0x400 + l) mod 0x400 = l"
    using hl(2) by simp_all
  have "of_nat (0xD800 + h) = c" "of_nat (0xDC00 + l) = d"
    using hl(3,4) by (metis of_nat_unat unsigned_eq_0_iff ucast_id)+
  then have "utf16 n = [c, d]"
    unfolding utf16_def n using dm by simp
  moreover have "n < 0x110000" using hl(1,2) n by simp
  moreover have "0xDFFF < n" using n by simp
  ultimately show ?thesis by simp
qed

lemma Buffer_roundtrip: "wellFormed s \<Longrightarrow> Buffer_toString (Buffer_from s) = s"
proof (induction s rule: Buffer_from.induct)
  case 1
  then show ?case by simp
next
  case (2 c r)
  show ?case
  proof (cases "isHighSurrogate c")
    case True
    with "2.prems" obtain d r' where r: "r = d # r'" and d: "isLowSurrogate d" and w: "wellFormed r'"
      by (cases r) auto
    from "2.IH"(1) [OF True r d w] have ih: "Buffer_toString (Buffer_from r') = r'" .
    from utf16_pair [OF True d] decode_encode
    have "Buffer_toString (utf8Encode (0x10000 + (unat c - 0xD800) * 0x400 + (unat d - 0xDC00)) @ Buffer_from r')
          = [c, d] @ Buffer_toString (Buffer_from r')"
      by simp
    with True r d ih show ?thesis by simp
  next
    case False
    with "2.prems" have l: "\<not> isLowSurrogate c" and w: "wellFormed r" by simp_all
    from "2.IH"(4) [OF False l w] have ih: "Buffer_toString (Buffer_from r) = r" .
    from utf16_unit [OF False l] decode_encode
    have "Buffer_toString (utf8Encode (unat c) @ Buffer_from r) = [c] @ Buffer_toString (Buffer_from r)"
      by simp
    with False l ih show ?thesis by simp
  qed
qed

lemma Buffer_from_ascii: "\<forall>c \<in> set s. c < 0x80 \<Longrightarrow> Buffer_from s = map (\<lambda>c. of_nat (unat c)) s"
proof (induction s)
  case Nil
  then show ?case by simp
next
  case (Cons c s)
  then have c: "c < 0x80" by simp
  then have "unat c < 0x80" by (simp add: word_less_nat_alt)
  moreover from c have "\<not> isHighSurrogate c" "\<not> isLowSurrogate c"
    by (simp_all add: isHighSurrogate_def isLowSurrogate_def word_le_nat_alt word_less_nat_alt)
  ultimately show ?case using Cons by (simp add: utf8Encode_def)
qed

lemma Buffer_from_lone_surrogate:
  "isHighSurrogate c \<or> isLowSurrogate c \<Longrightarrow> Buffer_from [c] = [0xEF, 0xBF, 0xBD]"
  by (auto simp: utf8Encode_def)

section \<open>Properties of the attachments\<close>

lemma mapThrowing_Inl: "mapThrowing f xs = Inl e \<Longrightarrow> \<exists>x \<in> set xs. f x = Inl e"
proof (induction xs)
  case Nil
  then show ?case by simp
next
  case (Cons a xs)
  then show ?case by (cases "f a"; cases "mapThrowing f xs") auto
qed

lemma mapThrowing_fails: "x \<in> set xs \<Longrightarrow> f x = Inl e0 \<Longrightarrow> \<exists>e. mapThrowing f xs = Inl e"
proof (induction xs)
  case Nil
  then show ?case by simp
next
  case (Cons a xs)
  then show ?case by (cases "f a"; cases "mapThrowing f xs") auto
qed

lemma mapAttachment_errors:
  "mapAttachment a = Inl e \<Longrightarrow>
   e = APIError (js ''Attachment is missing filename or content'') 400 \<or>
   e = APIError (js ''Attachment content must be a string or a buffer'') 400"
  unfolding mapAttachment_def
  by (cases "MailAttachment.filename a"; cases "MailAttachment.content a")
     (auto split: if_splits Content.splits)

lemma mapAttachment_invalid:
  "\<not> truthy (MailAttachment.filename a) \<or> \<not> truthyContent (MailAttachment.content a)
     \<or> MailAttachment.content a = Some ContentStream \<Longrightarrow> \<exists>e. mapAttachment a = Inl e"
  unfolding mapAttachment_def
  by (cases "MailAttachment.filename a"; cases "MailAttachment.content a")
     (auto simp: truthy_def)

lemma mapAttachments_invalid:
  assumes "a \<in> set as" and "mapAttachment a = Inl e0"
  shows "\<exists>m. mapAttachments (Some as) = Inl (APIError m 400) \<and>
           (m = js ''Attachment is missing filename or content'' \<or>
            m = js ''Attachment content must be a string or a buffer'')"
proof -
  from mapThrowing_fails [of a as mapAttachment e0] assms
  obtain e where e: "mapThrowing mapAttachment as = Inl e"
    by auto
  from mapThrowing_Inl [OF e] obtain x where "mapAttachment x = Inl e"
    by auto
  then have "e = APIError (js ''Attachment is missing filename or content'') 400 \<or>
             e = APIError (js ''Attachment content must be a string or a buffer'') 400"
    by (rule mapAttachment_errors)
  then show ?thesis
  proof
    assume "e = APIError (js ''Attachment is missing filename or content'') 400"
    with e show ?thesis by (simp add: mapAttachments_def)
  next
    assume "e = APIError (js ''Attachment content must be a string or a buffer'') 400"
    with e show ?thesis by (simp add: mapAttachments_def)
  qed
qed

lemma sendEmail_invalid_attachment:
  assumes "m_attachments message = Some as" and "a \<in> set as" and "mapAttachment a = Inl e0"
  shows "\<exists>m. sendEmail args fetch message = (Inl (APIError m 400), []) \<and>
           (m = js ''Attachment is missing filename or content'' \<or>
            m = js ''Attachment content must be a string or a buffer'')"
proof -
  from mapAttachments_invalid [OF assms(2,3)]
  obtain m where m: "mapAttachments (Some as) = Inl (APIError m 400)"
    and ms: "m = js ''Attachment is missing filename or content'' \<or>
             m = js ''Attachment content must be a string or a buffer''"
    by auto
  from m assms(1) have "sendEmail args fetch message = (Inl (APIError m 400), [])"
    by (simp add: sendEmail_mapping_throws mapPayload_attachments_throw)
  with ms show ?thesis by simp
qed

lemma mapAttachment_valid:
  assumes "truthy (MailAttachment.filename a)" and "truthyContent (MailAttachment.content a)"
    and "MailAttachment.content a \<noteq> Some ContentStream"
  shows "\<exists>b. mapAttachment a = Inr b \<and> MailAttachment.filename a = Some (Attachment.filename b) \<and>
           (\<forall>s. MailAttachment.content a = Some (ContentString s) \<longrightarrow> Attachment.content b = Buffer_from s) \<and>
           (\<forall>c. MailAttachment.content a = Some (ContentBuffer c) \<longrightarrow> Attachment.content b = c)"
proof (cases "MailAttachment.filename a")
  case None
  with assms(1) show ?thesis by (simp add: truthy_def)
next
  case (Some f)
  note f = Some
  show ?thesis
  proof (cases "MailAttachment.content a")
    case None
    with assms(2) show ?thesis by (simp add: truthyContent_def)
  next
    case (Some c)
    with assms f show ?thesis
      by (cases c) (simp_all add: mapAttachment_def)
  qed
qed

lemma mapThrowing_all_ok:
  "\<forall>x \<in> set xs. \<exists>y. f x = Inr y \<and> P x y \<Longrightarrow>
   \<exists>ys. mapThrowing f xs = Inr ys \<and> length ys = length xs \<and> (\<forall>i < length xs. P (xs ! i) (ys ! i))"
proof (induction xs)
  case Nil
  then show ?case by simp
next
  case (Cons x xs)
  then obtain y where y: "f x = Inr y" "P x y" by auto
  from Cons obtain ys where ys: "mapThrowing f xs = Inr ys" "length ys = length xs"
    "\<forall>i < length xs. P (xs ! i) (ys ! i)"
    by auto
  have "\<forall>i < length (x # xs). P ((x # xs) ! i) ((y # ys) ! i)"
  proof (intro allI impI)
    fix i
    assume "i < length (x # xs)"
    with y(2) ys(3) show "P ((x # xs) ! i) ((y # ys) ! i)"
      by (cases i) simp_all
  qed
  with y(1) ys(1,2) show ?case by simp
qed

lemma mapPayload_before_replyTo:
  assumes "mapAttachments (m_attachments message) = Inr atts"
  shows "\<exists>m0. mapPayloadEmailToSweegoEmail message da dn dr = mapReplyTo (m_replyTo message) m0 \<and>
              p_attachments m0 = (case atts of Some (a # as) \<Rightarrow> Some (a # as) | _ \<Rightarrow> None)"
  unfolding mapPayloadEmailToSweegoEmail_def assms sum.case Let_def
  by (rule exI, rule conjI, rule refl) (simp split: option.splits)

lemma mapReplyTo_succeeds:
  assumes "\<forall>s. r = Some (One (AddrString s)) \<longrightarrow> s = [] \<or> s = js ''string''"
  shows "\<exists>p. mapReplyTo r m = Inr p \<and> p_attachments p = p_attachments m"
proof (cases r)
  case None
  then show ?thesis by (simp add: mapReplyTo_def)
next
  case (Some field)
  show ?thesis
  proof (cases field)
    case (One a)
    show ?thesis
    proof (cases a)
      case (AddrString s)
      with assms Some One have "s = [] \<or> s = js ''string''" by simp
      with Some One AddrString show ?thesis by (auto simp: mapReplyTo_def)
    next
      case (AddrObject b)
      with Some One show ?thesis by (simp add: mapReplyTo_def)
    qed
  next
    case (Many as)
    with Some show ?thesis by (simp add: mapReplyTo_def split: list.splits)
  qed
qed

lemma sendEmail_one_request:
  "mapPayloadEmailToSweegoEmail message (defaultFromAddress args) (defaultFromName args) (dryRun args) = Inr p
   \<Longrightarrow> snd (sendEmail args fetch message) = [fetchRequest args p]"
  by (simp add: sendEmail_def split: sum.splits option.splits)

lemma js_nonempty: "js ''a.txt'' \<noteq> [] \<and> js ''hi'' \<noteq> [] \<and> js ''b.bin'' \<noteq> []"
  by (simp add: js_def)

text \<open>
  Claim C6. When the attachment list of a message holds an attachment whose filename or
  content is missing (or falsy), or whose content is neither a string nor a Buffer,
  \<open>sendEmail\<close> throws an APIError with status 400 and one of the two attachment messages,
  and it has made no request. An attachment with a filename and a non-empty string content
  is mapped to the bytes \<open>Buffer_from\<close> gives, one with a Buffer keeps its bytes. When no
  attachment of the list is invalid (and the reply-to is no string that throws), the
  mapped list has one attachment per attachment of the message, in order, with the same
  filename and with the encoded string or the unchanged Buffer as content; the payload
  holds this list (no list when it is empty), and \<open>sendEmail\<close> makes one request, whose body
  is this payload. The encoding of a string is UTF-8: one byte per ASCII code unit, bytes
  that decode to the string when it is well-formed, and EF BF BD for a surrogate alone.
\<close>

theorem invalid_attachment_fails_before_fetch:
  "(m_attachments message = Some as \<and>
    (\<exists>a \<in> set as. \<not> truthy (MailAttachment.filename a) \<or> \<not> truthyContent (MailAttachment.content a)
        \<or> MailAttachment.content a = Some ContentStream)
    \<longrightarrow> (\<exists>m. sendEmail args fetch message = (Inl (APIError m 400), []) \<and>
           (m = js ''Attachment is missing filename or content'' \<or>
            m = js ''Attachment content must be a string or a buffer''))) \<and>
   (MailAttachment.filename a1 = Some f1 \<and> f1 \<noteq> [] \<and>
    MailAttachment.content a1 = Some (ContentString s) \<and> s \<noteq> []
    \<longrightarrow> mapAttachment a1 = Inr \<lparr>content = Buffer_from s, filename = f1\<rparr>) \<and>
   (MailAttachment.filename a2 = Some f2 \<and> f2 \<noteq> [] \<and> MailAttachment.content a2 = Some (ContentBuffer b)
    \<longrightarrow> mapAttachment a2 = Inr \<lparr>content = b, filename = f2\<rparr>) \<and>
   (m_attachments message = Some as \<and>
    (\<forall>a \<in> set as. truthy (MailAttachment.filename a) \<and> truthyContent (MailAttachment.content a)
        \<and> MailAttachment.content a \<noteq> Some ContentStream) \<and>
    (\<forall>r. m_replyTo message = Some (One (AddrString r)) \<longrightarrow> r = [] \<or> r = js ''string'')
    \<longrightarrow> (\<exists>bs p.
           mapAttachments (Some as) = Inr (Some bs) \<and> length bs = length as \<and>
           (\<forall>i < length as.
              MailAttachment.filename (as ! i) = Some (Attachment.filename (bs ! i)) \<and>
              (\<forall>t. MailAttachment.content (as ! i) = Some (ContentString t)
                   \<longrightarrow> Attachment.content (bs ! i) = Buffer_from t) \<and>
              (\<forall>c. MailAttachment.content (as ! i) = Some (ContentBuffer c)
                   \<longrightarrow> Attachment.content (bs ! i) = c)) \<and>
           mapPayloadEmailToSweegoEmail message (defaultFromAddress args) (defaultFromName args) (dryRun args)
             = Inr p \<and>
           p_attachments p = (if as = [] then None else Some bs) \<and>
           snd (sendEmail args fetch message) = [fetchRequest args p] \<and>
           body (fetchRequest args p) = p)) \<and>
   ((\<forall>c \<in> set u. c < 0x80) \<longrightarrow> Buffer_from u = map (\<lambda>c. of_nat (unat c)) u) \<and>
   (wellFormed u \<longrightarrow> Buffer_toString (Buffer_from u) = u) \<and>
   (isHighSurrogate h \<or> isLowSurrogate h \<longrightarrow> Buffer_from [h] = [0xEF, 0xBF, 0xBD])"
proof (intro conjI impI)
  assume h: "m_attachments message = Some as \<and>
    (\<exists>a \<in> set as. \<not> truthy (MailAttachment.filename a) \<or> \<not> truthyContent (MailAttachment.content a)
        \<or> MailAttachment.content a = Some ContentStream)"
  then obtain a e0 where "a \<in> set as" and "mapAttachment a = Inl e0"
    using mapAttachment_invalid by blast
  with h show "\<exists>m. sendEmail args fetch message = (Inl (APIError m 400), []) \<and>
           (m = js ''Attachment is missing filename or content'' \<or>
            m = js ''Attachment content must be a string or a buffer'')"
    using sendEmail_invalid_attachment [of message as a e0 args fetch] by simp
next
  assume "MailAttachment.filename a1 = Some f1 \<and> f1 \<noteq> [] \<and>
    MailAttachment.content a1 = Some (ContentString s) \<and> s \<noteq> []"
  then show "mapAttachment a1 = Inr \<lparr>content = Buffer_from s, filename = f1\<rparr>"
    by (simp add: mapAttachment_def truthy_def truthyContent_def)
next
  assume "MailAttachment.filename a2 = Some f2 \<and> f2 \<noteq> [] \<and> MailAttachment.content a2 = Some (ContentBuffer b)"
  then show "mapAttachment a2 = Inr \<lparr>content = b, filename = f2\<rparr>"
    by (simp add: mapAttachment_def truthy_def truthyContent_def)
next
  assume h: "m_attachments message = Some as \<and>
    (\<forall>a \<in> set as. truthy (MailAttachment.filename a) \<and> truthyContent (MailAttachment.content a)
        \<and> MailAttachment.content a \<noteq> Some ContentStream) \<and>
    (\<forall>r. m_replyTo message = Some (One (AddrString r)) \<longrightarrow> r = [] \<or> r = js ''string'')"
  let ?P = "\<lambda>a b. MailAttachment.filename a = Some (Attachment.filename b) \<and>
              (\<forall>t. MailAttachment.content a = Some (ContentString t) \<longrightarrow> Attachment.content b = Buffer_from t) \<and>
              (\<forall>c. MailAttachment.content a = Some (ContentBuffer c) \<longrightarrow> Attachment.content b = c)"
  from h have "\<forall>a \<in> set as. \<exists>b. mapAttachment a = Inr b \<and> ?P a b"
    using mapAttachment_valid by blast
  from mapThrowing_all_ok [of as mapAttachment ?P, OF this]
  obtain bs where bs: "mapThrowing mapAttachment as = Inr bs" "length bs = length as"
    "\<forall>i < length as. ?P (as ! i) (bs ! i)"
    by blast
  from bs(1) have ma: "mapAttachments (Some as) = Inr (Some bs)"
    by (simp add: mapAttachments_def)
  with h have "mapAttachments (m_attachments message) = Inr (Some bs)" by simp
  from mapPayload_before_replyTo [OF this, of "defaultFromAddress args" "defaultFromName args" "dryRun args"]
  obtain m0 where m0:
    "mapPayloadEmailToSweegoEmail message (defaultFromAddress args) (defaultFromName args) (dryRun args)
       = mapReplyTo (m_replyTo message) m0"
    "p_attachments m0 = (case Some bs of Some (a # as) \<Rightarrow> Some (a # as) | _ \<Rightarrow> None)"
    by blast
  from h mapReplyTo_succeeds [of "m_replyTo message" m0]
  obtain p where p: "mapReplyTo (m_replyTo message) m0 = Inr p" "p_attachments p = p_attachments m0"
    by blast
  from bs(2) have e: "(as = []) = (bs = [])" by auto
  have pa: "p_attachments p = (if as = [] then None else Some bs)"
    using p(2) m0(2) e by (cases bs) simp_all
  from m0(1) p(1) have mp:
    "mapPayloadEmailToSweegoEmail message (defaultFromAddress args) (defaultFromName args) (dryRun args) = Inr p"
    by simp
  have rq: "snd (sendEmail args fetch message) = [fetchRequest args p]"
    using mp by (rule sendEmail_one_request)
  have bd: "body (fetchRequest args p) = p"
    by (simp add: fetchRequest_def)
  from ma bs(2,3) mp pa rq bd
  show "\<exists>bs p.
           mapAttachments (Some as) = Inr (Some bs) \<and> length bs = length as \<and>
           (\<forall>i < length as.
              MailAttachment.filename (as ! i) = Some (Attachment.filename (bs ! i)) \<and>
              (\<forall>t. MailAttachment.content (as ! i) = Some (ContentString t)
                   \<longrightarrow> Attachment.content (bs ! i) = Buffer_from t) \<and>
              (\<forall>c. MailAttachment.content (as ! i) = Some (ContentBuffer c)
                   \<longrightarrow> Attachment.content (bs ! i) = c)) \<and>
           mapPayloadEmailToSweegoEmail message (defaultFromAddress args) (defaultFromName args) (dryRun args)
             = Inr p \<and>
           p_attachments p = (if as = [] then None else Some bs) \<and>
           snd (sendEmail args fetch message) = [fetchRequest args p] \<and>
           body (fetchRequest args p) = p"
    by (intro exI [of _ bs] exI [of _ p] conjI)
next
  assume "\<forall>c \<in> set u. c < 0x80"
  then show "Buffer_from u = map (\<lambda>c. of_nat (unat c)) u" by (rule Buffer_from_ascii)
next
  assume "wellFormed u"
  then show "Buffer_toString (Buffer_from u) = u" by (rule Buffer_roundtrip)
next
  assume "isHighSurrogate h \<or> isLowSurrogate h"
  then show "Buffer_from [h] = [0xEF, 0xBF, 0xBD]" by (rule Buffer_from_lone_surrogate)
qed

theorem invalid_attachment_fails_before_fetch_witness:
  "\<not> truthy (MailAttachment.filename namelessAttachment) \<and>
   (\<exists>m. sendEmail demoArgs fetch500 (demoMessage\<lparr>m_attachments := Some [textAttachment, namelessAttachment]\<rparr>)
          = (Inl (APIError m 400), [])) \<and>
   mapAttachment textAttachment = Inr \<lparr>content = [0x68, 0x69], filename = js ''a.txt''\<rparr> \<and>
   mapAttachment bufferAttachment = Inr \<lparr>content = [0x00, 0xFF], filename = js ''b.bin''\<rparr> \<and>
   (\<exists>p. mapPayloadEmailToSweegoEmail (demoMessage\<lparr>m_attachments := Some [textAttachment, bufferAttachment]\<rparr>)
          (defaultFromAddress demoArgs) (defaultFromName demoArgs) (dryRun demoArgs) = Inr p \<and>
        p_attachments p = Some [\<lparr>content = [0x68, 0x69], filename = js ''a.txt''\<rparr>,
                                \<lparr>content = [0x00, 0xFF], filename = js ''b.bin''\<rparr>] \<and>
        snd (sendEmail demoArgs fetch500 (demoMessage\<lparr>m_attachments := Some [textAttachment, bufferAttachment]\<rparr>))
          = [fetchRequest demoArgs p])"
proof -
  let ?bad = "demoMessage\<lparr>m_attachments := Some [textAttachment, namelessAttachment]\<rparr>"
  let ?good = "demoMessage\<lparr>m_attachments := Some [textAttachment, bufferAttachment]\<rparr>"
  have n: "\<not> truthy (MailAttachment.filename namelessAttachment)"
    by (simp add: namelessAttachment_def truthy_def)
  have b: "Buffer_from (js ''hi'') = [0x68, 0x69]"
    by (simp add: js_def isHighSurrogate_def isLowSurrogate_def utf8Encode_def)
  note t = invalid_attachment_fails_before_fetch
      [where message = ?bad and as = "[textAttachment, namelessAttachment]" and args = demoArgs
         and fetch = fetch500 and ?a1.0 = textAttachment and ?f1.0 = "js ''a.txt''" and s = "js ''hi''"
         and ?a2.0 = bufferAttachment and ?f2.0 = "js ''b.bin''" and b = "[0x00, 0xFF]"]
  have 1: "\<exists>m. sendEmail demoArgs fetch500 ?bad = (Inl (APIError m 400), [])"
    using t n by auto
  have 2: "mapAttachment textAttachment = Inr \<lparr>content = [0x68, 0x69], filename = js ''a.txt''\<rparr>"
    using t b js_nonempty by (simp add: textAttachment_def)
  have 3: "mapAttachment bufferAttachment = Inr \<lparr>content = [0x00, 0xFF], filename = js ''b.bin''\<rparr>"
    using t js_nonempty by (simp add: bufferAttachment_def)
  have v: "\<forall>a \<in> set [textAttachment, bufferAttachment].
             truthy (MailAttachment.filename a) \<and> truthyContent (MailAttachment.content a)
             \<and> MailAttachment.content a \<noteq> Some ContentStream"
    using js_nonempty by (simp add: textAttachment_def bufferAttachment_def truthy_def truthyContent_def)
  have r: "\<forall>r. m_replyTo ?good = Some (One (AddrString r)) \<longrightarrow> r = [] \<or> r = js ''string''"
    by (simp add: demoMessage_def)
  have m: "m_attachments ?good = Some [textAttachment, bufferAttachment]" by simp
  note g = invalid_attachment_fails_before_fetch
      [where message = ?good and as = "[textAttachment, bufferAttachment]" and args = demoArgs
         and fetch = fetch500]
  from g m v r obtain bs p where
    bs: "mapAttachments (Some [textAttachment, bufferAttachment]) = Inr (Some bs)"
    and p: "mapPayloadEmailToSweegoEmail ?good (defaultFromAddress demoArgs) (defaultFromName demoArgs)
              (dryRun demoArgs) = Inr p"
    and pa: "p_attachments p = (if [textAttachment, bufferAttachment] = [] then None else Some bs)"
    and rq: "snd (sendEmail demoArgs fetch500 ?good) = [fetchRequest demoArgs p]"
    by blast
  have "mapAttachments (Some [textAttachment, bufferAttachment])
          = Inr (Some [\<lparr>content = [0x68, 0x69], filename = js ''a.txt''\<rparr>,
                       \<lparr>content = [0x00, 0xFF], filename = js ''b.bin''\<rparr>])"
    by (simp add: mapAttachments_def 2 3)
  with bs have "bs = [\<lparr>content = [0x68, 0x69], filename = js ''a.txt''\<rparr>,
                      \<lparr>content = [0x00, 0xFF], filename = js ''b.bin''\<rparr>]"
    by simp
  with pa have 4: "p_attachments p = Some [\<lparr>content = [0x68, 0x69], filename = js ''a.txt''\<rparr>,
                                          \<lparr>content = [0x00, 0xFF], filename = js ''b.bin''\<rparr>]"
    by simp
  from p 4 rq have 5: "\<exists>p. mapPayloadEmailToSweegoEmail ?good
          (defaultFromAddress demoArgs) (defaultFromName demoArgs) (dryRun demoArgs) = Inr p \<and>
        p_attachments p = Some [\<lparr>content = [0x68, 0x69], filename = js ''a.txt''\<rparr>,
                                \<lparr>content = [0x00, 0xFF], filename = js ''b.bin''\<rparr>] \<and>
        snd (sendEmail demoArgs fetch500 ?good) = [fetchRequest demoArgs p]"
    by blast
  from n 1 2 3 5 show ?thesis by (intro conjI)
qed

text \<open>
  Claim C9. An attachment whose filename and content are both present, with the empty
  string as filename or as content, is rejected with the APIError "Attachment is missing
  filename or content" (status 400); a message with such an attachment in its list is
  never sent: \<open>sendEmail\<close> throws an APIError with status 400 and makes no request.
\<close>

theorem empty_string_attachment_is_rejected:
  "MailAttachment.filename a = Some f \<and> MailAttachment.content a = Some c \<and> (f = [] \<or> c = ContentString [])
   \<longrightarrow> mapAttachment a = Inl (APIError (js ''Attachment is missing filename or content'') 400) \<and>
       (\<forall>message as args fetch. m_attachments message = Some as \<and> a \<in> set as
          \<longrightarrow> (\<exists>m. sendEmail args fetch message = (Inl (APIError m 400), [])))"
proof (intro impI)
  assume h: "MailAttachment.filename a = Some f \<and> MailAttachment.content a = Some c \<and> (f = [] \<or> c = ContentString [])"
  then have e: "mapAttachment a = Inl (APIError (js ''Attachment is missing filename or content'') 400)"
    by (auto simp: mapAttachment_def truthy_def truthyContent_def)
  have "\<exists>m. sendEmail args fetch message = (Inl (APIError m 400), [])"
    if "m_attachments message = Some as \<and> a \<in> set as" for message as args fetch
    using sendEmail_invalid_attachment [of message as a _ args fetch] that e by blast
  with e show "mapAttachment a = Inl (APIError (js ''Attachment is missing filename or content'') 400) \<and>
       (\<forall>message as args fetch. m_attachments message = Some as \<and> a \<in> set as
          \<longrightarrow> (\<exists>m. sendEmail args fetch message = (Inl (APIError m 400), [])))"
    by blast
qed

theorem empty_string_attachment_is_rejected_witness:
  "MailAttachment.filename emptyAttachment = Some (js ''empty.txt'') \<and>
   MailAttachment.content emptyAttachment = Some (ContentString []) \<and>
   mapAttachment emptyAttachment = Inl (APIError (js ''Attachment is missing filename or content'') 400) \<and>
   (\<exists>m. sendEmail demoArgs fetch500 (demoMessage\<lparr>m_attachments := Some [emptyAttachment]\<rparr>)
          = (Inl (APIError m 400), []))"
proof -
  have h: "MailAttachment.filename emptyAttachment = Some (js ''empty.txt'') \<and>
           MailAttachment.content emptyAttachment = Some (ContentString [])"
    by (simp add: emptyAttachment_def)
  have m: "m_attachments (demoMessage\<lparr>m_attachments := Some [emptyAttachment]\<rparr>) = Some [emptyAttachment]
           \<and> emptyAttachment \<in> set [emptyAttachment]"
    by simp
  from empty_string_attachment_is_rejected [of emptyAttachment "js ''empty.txt''" "ContentString []"] h m
  show ?thesis by blast
qed

section \<open>Properties of sending\<close>

lemma sendEmail_not_ok:
  assumes "mapPayloadEmailToSweegoEmail message (defaultFromAddress args) (defaultFromName args) (dryRun args)
             = Inr payload"
    and "fetch (fetchRequest args payload) = Inr res"
    and "status res \<noteq> 200"
    and "json res = Some data"
  shows "sendEmail args fetch message = (Inl (throwFormattedError res data), [fetchRequest args payload])"
  using assms by (simp add: sendEmail_def)

lemma numberToString_500: "numberToString 500 = js ''500''"
  by (simp add: numberToString.simps js_def)

lemma numberToString_422: "numberToString 422 = js ''422''"
  by (simp add: numberToString.simps js_def)

text \<open>
  Claim C10, amended. When the request was made and the answer has a status other than
  200 and a JSON body that is not \<^verbatim>\<open>null\<close> and has no usable detail (a body of the success
  shape, a value that is no object, or a detail that is missing, null, false, 0 or the
  empty string), \<open>sendEmail\<close> throws the APIError whose message is exactly "Error sending
  email: <status> <statusText>." and whose status code is the HTTP status; it has made
  that one request.
\<close>

theorem falsy_detail_gives_plain_message:
  assumes "mapPayloadEmailToSweegoEmail message (defaultFromAddress args) (defaultFromName args) (dryRun args)
             = Inr payload"
    and "fetch (fetchRequest args payload) = Inr res"
    and "status res \<noteq> 200"
    and "json res = Some data"
    and "(\<exists>x. data = Success x) \<or> data = JsonOther \<or>
         (\<exists>d. data = Error d \<and> d \<in> {DetailMissing, DetailNull, DetailFalse, DetailZero, DetailEmptyString})"
  shows "sendEmail args fetch message =
           (Inl (APIError (js ''Error sending email: '' @ numberToString (status res) @ js '' ''
                           @ statusText res @ js ''.'') (status res)),
            [fetchRequest args payload])"
proof -
  from assms(5) have "throwFormattedError res data =
      APIError (js ''Error sending email: '' @ numberToString (status res) @ js '' ''
                           @ statusText res @ js ''.'') (status res)"
    by (auto simp: throwFormattedError_def Let_def)
  with sendEmail_not_ok [of message args payload fetch res data] assms(1-4) show ?thesis by simp
qed

theorem null_body_counterexample:
  "status responseNull \<noteq> 200 \<and> json responseNull = Some JsonNull \<and>
   fst (sendEmail demoArgs fetchNull demoMessage) = Inl TypeError \<and>
   length (snd (sendEmail demoArgs fetchNull demoMessage)) = 1"
proof -
  from demo_payload obtain p where
    p: "mapPayloadEmailToSweegoEmail demoMessage (defaultFromAddress demoArgs) (defaultFromName demoArgs)
          (dryRun demoArgs) = Inr p"
    by blast
  have "sendEmail demoArgs fetchNull demoMessage
          = (Inl (throwFormattedError responseNull JsonNull), [fetchRequest demoArgs p])"
    using sendEmail_not_ok [of demoMessage demoArgs p fetchNull responseNull JsonNull] p
    by (simp add: fetchNull_def responseNull_def)
  then show ?thesis
    by (simp add: throwFormattedError_def responseNull_def)
qed

theorem falsy_detail_gives_plain_message_witness:
  "status response500 \<noteq> 200 \<and> json response500 = Some (Error DetailNull) \<and>
   fst (sendEmail demoArgs fetch500 demoMessage)
     = Inl (APIError (js ''Error sending email: 500 Internal Server Error.'') 500) \<and>
   length (snd (sendEmail demoArgs fetch500 demoMessage)) = 1"
proof -
  from demo_payload obtain p where
    p: "mapPayloadEmailToSweegoEmail demoMessage (defaultFromAddress demoArgs) (defaultFromName demoArgs)
          (dryRun demoArgs) = Inr p"
    by blast
  have f: "fetch500 (fetchRequest demoArgs p) = Inr response500"
    by (simp add: fetch500_def)
  have s: "status response500 \<noteq> 200" and j: "json response500 = Some (Error DetailNull)"
    by (simp_all add: response500_def)
  have "sendEmail demoArgs fetch500 demoMessage =
           (Inl (APIError (js ''Error sending email: '' @ numberToString (status response500) @ js '' ''
                           @ statusText response500 @ js ''.'') (status response500)),
            [fetchRequest demoArgs p])"
    using falsy_detail_gives_plain_message [of demoMessage demoArgs p fetch500 response500 "Error DetailNull"]
      p f s j
    by simp
  moreover have "js ''Error sending email: '' @ numberToString (status response500) @ js '' ''
                   @ statusText response500 @ js ''.'' = js ''Error sending email: 500 Internal Server Error.''"
    by (simp add: response500_def numberToString_500) (simp add: js_def)
  moreover have "status response500 = 500" by (simp add: response500_def)
  ultimately show ?thesis using s j by simp
qed

lemma format_scenario:
  "throwFormattedError (response422 es) (Error (DetailArray [badField]))
     = APIError (js ''Error sending email: 422 Unprocessable Entity. Type: \"validation_error\", Message: \"bad field\"'') 422"
  by (simp add: throwFormattedError_def response422_def badField_def numberToString_422 truthy_def)
     (simp add: js_def)

lemma format_skipped:
  "throwFormattedError (response422 es) (Error (DetailArray [untyped, badField]))
     = APIError (js ''Error sending email: 422 Unprocessable Entity.; Type: \"validation_error\", Message: \"bad field\"'') 422"
  by (simp add: throwFormattedError_def response422_def badField_def untyped_def numberToString_422 truthy_def)
     (simp add: js_def)

text \<open>
  Claim C1. The scenario of the claim holds: status 422 with the one entry "bad field" of
  type "validation_error" gives the message "Error sending email: 422 Unprocessable
  Entity. Type: "validation_error", Message: "bad field"" and the status code 422. When an
  entry whose type is null comes first, it is skipped and the entry after it, the first
  one appended, is joined with "; " and not with a space: the separator follows the index
  of the entry in the detail list.
\<close>

theorem separator_follows_index:
  "fst (sendEmail demoArgs (\<lambda>req. Inr (response422 [badField])) demoMessage)
     = Inl (APIError (js ''Error sending email: 422 Unprocessable Entity. Type: \"validation_error\", Message: \"bad field\"'') 422) \<and>
   fst (sendEmail demoArgs (\<lambda>req. Inr (response422 [untyped, badField])) demoMessage)
     = Inl (APIError (js ''Error sending email: 422 Unprocessable Entity.; Type: \"validation_error\", Message: \"bad field\"'') 422)"
proof -
  from demo_payload obtain p where
    p: "mapPayloadEmailToSweegoEmail demoMessage (defaultFromAddress demoArgs) (defaultFromName demoArgs)
          (dryRun demoArgs) = Inr p"
    by blast
  have "sendEmail demoArgs (\<lambda>req. Inr (response422 es)) demoMessage
          = (Inl (throwFormattedError (response422 es) (Error (DetailArray es))), [fetchRequest demoArgs p])" for es
    using sendEmail_not_ok [of demoMessage demoArgs p "\<lambda>req. Inr (response422 es)" "response422 es"
        "Error (DetailArray es)"] p
    by (simp add: response422_def)
  then show ?thesis by (simp add: format_scenario format_skipped)
qed

section \<open>Properties of the address parser\<close>

subsection \<open>trim\<close>

lemma set_trim: "set (trim s) \<subseteq> set s"
proof -
  have "set (trim s) \<subseteq> set (rev (dropWhile isTrimmed s))"
    unfolding trim_def using set_dropWhileD by fastforce
  also have "\<dots> \<subseteq> set s"
    using set_dropWhileD by fastforce
  finally show ?thesis .
qed

lemma length_trim: "length (trim s) \<le> length s"
proof -
  have "length (trim s) \<le> length (dropWhile isTrimmed s)"
    unfolding trim_def by (simp add: length_dropWhile_le) (metis length_dropWhile_le length_rev)
  also have "\<dots> \<le> length s" by (rule length_dropWhile_le)
  finally show ?thesis .
qed

lemma trim_id_iff: "trim s = s \<longleftrightarrow> s = [] \<or> (\<not> isTrimmed (hd s) \<and> \<not> isTrimmed (last s))"
  by (metis (no_types, lifting) ext dropWhile_eq_self_iff hd_dropWhile
    last_appendR last_rev rev.simps(1) rev_rev_ident takeWhile_dropWhile_id
    trim_def)

lemma trim_ends: "trim s = [] \<or> (\<not> isTrimmed (hd (trim s)) \<and> \<not> isTrimmed (last (trim s)))"
  by (metis (no_types, lifting) dropWhile_eq_self_iff hd_dropWhile
    last_appendR last_rev rev.simps(1) rev_swap takeWhile_dropWhile_id
    trim_def)

lemma trim_idem: "trim (trim s) = trim s"
  using trim_ends [of s] by (simp add: trim_id_iff)

lemma length_trim_eq: "length (trim s) = length s \<Longrightarrow> trim s = s"
  by (metis (no_types, lifting) append.left_neutral append_eq_append_conv
    le_antisym length_dropWhile_le length_rev rev_rev_ident
    takeWhile_dropWhile_id trim_def)

subsection \<open>stripQuote\<close>

lemma length_stripQuote: "length (stripQuote q s) \<le> length s"
  by (cases s) (auto simp: stripQuote_def Let_def)

lemma length_stripQuote_less:
  "s \<noteq> [] \<Longrightarrow> hd s = q \<or> last s = q \<Longrightarrow> length (stripQuote q s) < length s"
  by (cases s) (auto simp: stripQuote_def Let_def)

lemma stripQuote_id_iff: "stripQuote q s = s \<longleftrightarrow> s = [] \<or> (hd s \<noteq> q \<and> last s \<noteq> q)"
proof
  assume h: "stripQuote q s = s"
  show "s = [] \<or> (hd s \<noteq> q \<and> last s \<noteq> q)"
  proof (rule ccontr)
    assume "\<not> (s = [] \<or> (hd s \<noteq> q \<and> last s \<noteq> q))"
    then have "length (stripQuote q s) < length s"
      using length_stripQuote_less [of s q] by blast
    with h show False by simp
  qed
next
  assume "s = [] \<or> (hd s \<noteq> q \<and> last s \<noteq> q)"
  then show "stripQuote q s = s"
    by (cases s) (auto simp: stripQuote_def Let_def)
qed

lemma set_stripQuote: "set (stripQuote q s) \<subseteq> set s"
  by (cases s) (auto simp: stripQuote_def Let_def dest: in_set_butlastD)

subsection \<open>The bracket pattern\<close>

lemma lit_simps: "lit c k [] = None" "lit c k (d # r) = (if d = c then k r else None)"
  by (simp_all add: lit_def)

lemma dotStar_lit_None: "c \<notin> set s \<Longrightarrow> dotStar (lit c k) s = None"
  by (induction s) (auto simp: lit_simps)

lemma dotStar_lit_lit_None: "d \<notin> set s \<Longrightarrow> dotStar (lit c (dotStar (lit d k))) s = None"
  by (induction s) (auto simp: lit_simps dotStar_lit_None)

lemma bracketPattern_None: "chLess \<notin> set s \<or> chGreater \<notin> set s \<Longrightarrow> bracketPattern s = None"
  unfolding bracketPattern_def using dotStar_lit_None dotStar_lit_lit_None by blast

lemma replace_no_match: "(\<And>r. set r \<subseteq> set s \<Longrightarrow> m r = None) \<Longrightarrow> replace m s = s"
proof (induction s)
  case Nil
  then show ?case by simp
next
  case (Cons a s)
  have "m (a # s) = None" using Cons.prems by simp
  moreover have "replace m s = s"
    by (rule Cons.IH) (use Cons.prems in \<open>simp add: subset_insertI2\<close>)
  ultimately show ?case by simp
qed

lemma replaceEmailGroup_id: "chLess \<notin> set s \<or> chGreater \<notin> set s \<Longrightarrow> replaceEmailGroup s = s"
  unfolding replaceEmailGroup_def
  by (rule replace_no_match) (use bracketPattern_None in \<open>auto\<close>)

lemma replaceNameGroup_id: "chLess \<notin> set s \<or> chGreater \<notin> set s \<Longrightarrow> replaceNameGroup s = s"
  unfolding replaceNameGroup_def
  by (rule replace_no_match) (use bracketPattern_None in \<open>auto\<close>)

lemma replace_match: "m s = Some (rep, rest) \<Longrightarrow> replace m s = rep @ rest"
  by (cases s) simp_all

lemma not_lt_brackets:
  "\<not> isLineTerminator chLess" "\<not> isLineTerminator chGreater" "chLess \<noteq> chGreater" "chGreater \<noteq> chLess"
  by (simp_all add: isLineTerminator_def chLess_def chGreater_def)

lemma inner_match:
  "\<forall>c \<in> set mid. \<not> isLineTerminator c \<Longrightarrow> chGreater \<notin> set post \<Longrightarrow>
   dotStar (lit chGreater Some) (mid @ chGreater # post) = Some (mid, post)"
proof (induction mid)
  case Nil
  then show ?case by (simp add: dotStar_lit_None not_lt_brackets) (simp add: lit_simps)
next
  case (Cons c mid)
  then show ?case by simp
qed

lemma outer_no_later_match:
  "chLess \<notin> set mid \<Longrightarrow> chGreater \<notin> set post \<Longrightarrow>
   dotStar (lit chLess (dotStar (lit chGreater k))) (mid @ chGreater # post) = None"
proof (induction mid)
  case Nil
  then show ?case by (simp add: dotStar_lit_lit_None) (simp add: lit_simps not_lt_brackets)
next
  case (Cons c mid)
  then have "c \<noteq> chLess" by auto
  with Cons show ?case by (simp add: lit_simps)
qed

lemma bracketPattern_match:
  assumes "\<forall>c \<in> set pre. \<not> isLineTerminator c" and "\<forall>c \<in> set mid. \<not> isLineTerminator c"
    and "chLess \<notin> set mid" and "chGreater \<notin> set post"
  shows "bracketPattern (pre @ chLess # mid @ chGreater # post) = Some (pre, mid, post)"
  using assms(1)
proof (induction pre)
  case Nil
  have "dotStar (lit chLess (dotStar (lit chGreater Some))) (chLess # mid @ chGreater # post)
        = map_option (Pair []) (lit chLess (dotStar (lit chGreater Some)) (chLess # mid @ chGreater # post))"
    using outer_no_later_match [OF assms(3,4), where k = Some] by (simp add: not_lt_brackets)
  also have "\<dots> = Some ([], mid, post)"
    using inner_match [OF assms(2,4)] by (simp add: lit_simps)
  finally show ?case by (simp add: bracketPattern_def)
next
  case (Cons c pre)
  then show ?case by (simp add: bracketPattern_def)
qed

lemma replaceEmailGroup_match:
  assumes "\<forall>c \<in> set pre. \<not> isLineTerminator c" and "\<forall>c \<in> set mid. \<not> isLineTerminator c"
    and "chLess \<notin> set mid" and "chGreater \<notin> set post"
  shows "replaceEmailGroup (pre @ chLess # mid @ chGreater # post) = mid @ post"
  unfolding replaceEmailGroup_def
  by (rule replace_match) (simp add: bracketPattern_match [OF assms])

lemma replaceNameGroup_match:
  assumes "\<forall>c \<in> set pre. \<not> isLineTerminator c" and "\<forall>c \<in> set mid. \<not> isLineTerminator c"
    and "chLess \<notin> set mid" and "chGreater \<notin> set post"
  shows "replaceNameGroup (pre @ chLess # mid @ chGreater # post) = pre @ post"
  unfolding replaceNameGroup_def
  by (rule replace_match) (simp add: bracketPattern_match [OF assms])

lemma extractEmail_bracket_free:
  assumes "chLess \<notin> set s \<or> chGreater \<notin> set s"
  shows "extractEmailFromAddressString s = trim s"
proof -
  from assms set_trim [of s] have "chLess \<notin> set (trim s) \<or> chGreater \<notin> set (trim s)"
    by blast
  then show ?thesis
    by (simp add: extractEmailFromAddressString_def replaceEmailGroup_id trim_idem)
qed

lemma extractName_bracket_free:
  assumes "chLess \<notin> set s \<or> chGreater \<notin> set s"
  shows "extractNameFromAddressString s = trim (stripQuote chSQuote (trim (stripQuote chDQuote (trim s))))"
proof -
  from assms set_trim [of s] have "chLess \<notin> set (trim s) \<or> chGreater \<notin> set (trim s)"
    by blast
  then show ?thesis
    by (simp add: extractNameFromAddressString_def replaceNameGroup_id trim_idem)
qed

lemmas string_eval =
  js_def trim_def isTrimmed_def isWhiteSpace_def isLineTerminator_def chLess_def chGreater_def
  chDQuote_def chSQuote_def

text \<open>
  Claim C3, amended. A string without \<open><\<close> or without \<open>>\<close> is returned trimmed. When the
  trimmed string is \<open>pre < mid > post\<close> with no line terminator in \<open>pre\<close> and \<open>mid\<close>, no
  \<open><\<close> in \<open>mid\<close> and no \<open>>\<close> in \<open>post\<close> (the \<open><\<close> is the last one that has a \<open>>\<close> after
  it, the \<open>>\<close> is the last one), the result is \<open>mid\<close> followed by \<open>post\<close>, trimmed: the
  content of the last bracketed group and the text after it.
\<close>

theorem extractEmail_keeps_last_group:
  "(chLess \<notin> set s \<or> chGreater \<notin> set s \<longrightarrow> extractEmailFromAddressString s = trim s) \<and>
   (trim s = pre @ chLess # mid @ chGreater # post \<and>
    (\<forall>c \<in> set (pre @ mid). \<not> isLineTerminator c) \<and> chLess \<notin> set mid \<and> chGreater \<notin> set post
    \<longrightarrow> extractEmailFromAddressString s = trim (mid @ post))"
proof (intro conjI impI)
  assume "chLess \<notin> set s \<or> chGreater \<notin> set s"
  then show "extractEmailFromAddressString s = trim s" by (rule extractEmail_bracket_free)
next
  assume h: "trim s = pre @ chLess # mid @ chGreater # post \<and>
    (\<forall>c \<in> set (pre @ mid). \<not> isLineTerminator c) \<and> chLess \<notin> set mid \<and> chGreater \<notin> set post"
  then have "replaceEmailGroup (trim s) = mid @ post"
    using replaceEmailGroup_match [of pre mid post] by simp
  then show "extractEmailFromAddressString s = trim (mid @ post)"
    by (simp add: extractEmailFromAddressString_def)
qed

theorem extractEmail_keeps_last_group_witness:
  "trim (js ''a <x@y> tail'') = js ''a '' @ chLess # js ''x@y'' @ chGreater # js '' tail'' \<and>
   extractEmailFromAddressString (js ''a <x@y> tail'') = js ''x@y tail'' \<and>
   chLess \<notin> set (js '' hello@zapal.tech '') \<and>
   extractEmailFromAddressString (js '' hello@zapal.tech '') = js ''hello@zapal.tech''"
proof -
  have 1: "trim (js ''a <x@y> tail'') = js ''a '' @ chLess # js ''x@y'' @ chGreater # js '' tail''"
    by (simp add: string_eval)
  have 2: "\<forall>c \<in> set (js ''a '' @ js ''x@y''). \<not> isLineTerminator c"
    by (simp add: string_eval)
  have 3: "chLess \<notin> set (js ''x@y'')" "chGreater \<notin> set (js '' tail'')"
    by (simp_all add: string_eval)
  have 4: "trim (js ''x@y'' @ js '' tail'') = js ''x@y tail''"
    by (simp add: string_eval)
  have 5: "chLess \<notin> set (js '' hello@zapal.tech '')"
    by (simp add: string_eval)
  have 6: "trim (js '' hello@zapal.tech '') = js ''hello@zapal.tech''"
    by (simp add: string_eval)
  from extractEmail_keeps_last_group [of "js ''a <x@y> tail''" "js ''a ''" "js ''x@y''" "js '' tail''"] 1 2 3
  have "extractEmailFromAddressString (js ''a <x@y> tail'') = trim (js ''x@y'' @ js '' tail'')"
    by simp
  moreover from extractEmail_keeps_last_group [of "js '' hello@zapal.tech ''"] 5
  have "extractEmailFromAddressString (js '' hello@zapal.tech '') = trim (js '' hello@zapal.tech '')"
    by simp
  ultimately show ?thesis using 1 4 5 6 by simp
qed

theorem extractEmail_first_group_counterexample:
  "extractEmailFromAddressString (js ''a <x@y> <z@w>'') = js ''z@w'' \<and>
   extractEmailFromAddressString (js ''a <x@y> <z@w>'') \<noteq> js ''x@y''"
  by code_simp

lemma length_stripQuote_eq: "length (stripQuote q s) = length s \<Longrightarrow> stripQuote q s = s"
  using length_stripQuote_less [of s q] stripQuote_id_iff [of q s] by fastforce

lemma unquote_id_iff:
  "trim (stripQuote chSQuote (trim (stripQuote chDQuote (trim s)))) = s \<longleftrightarrow>
   (s = [] \<or>
     (\<not> isTrimmed (hd s) \<and> \<not> isTrimmed (last s) \<and> hd s \<noteq> chDQuote \<and> last s \<noteq> chDQuote \<and>
      hd s \<noteq> chSQuote \<and> last s \<noteq> chSQuote))"
proof
  assume e: "trim (stripQuote chSQuote (trim (stripQuote chDQuote (trim s)))) = s"
  let ?a = "trim s"
  let ?b = "stripQuote chDQuote ?a"
  let ?c = "trim ?b"
  let ?d = "stripQuote chSQuote ?c"
  have l: "length (trim ?d) \<le> length ?d" "length ?d \<le> length ?c" "length ?c \<le> length ?b"
    "length ?b \<le> length ?a" "length ?a \<le> length s"
    by (rule length_trim length_stripQuote)+
  from e have "length (trim ?d) = length s" by simp
  with l have eqs: "length ?a = length s" "length ?b = length ?a" "length ?c = length ?b" "length ?d = length ?c"
    by linarith+
  from eqs(1) have a: "?a = s" by (rule length_trim_eq)
  from eqs(2) have "?b = ?a" by (rule length_stripQuote_eq)
  with a have b: "stripQuote chDQuote s = s" by simp
  from eqs(3) have "?c = ?b" by (rule length_trim_eq)
  from eqs(4) have "?d = ?c" by (rule length_stripQuote_eq)
  with a b have d: "stripQuote chSQuote s = s" by simp
  from a b d show "s = [] \<or>
     (\<not> isTrimmed (hd s) \<and> \<not> isTrimmed (last s) \<and> hd s \<noteq> chDQuote \<and> last s \<noteq> chDQuote \<and>
      hd s \<noteq> chSQuote \<and> last s \<noteq> chSQuote)"
    by (auto simp: trim_id_iff stripQuote_id_iff)
next
  assume "s = [] \<or>
     (\<not> isTrimmed (hd s) \<and> \<not> isTrimmed (last s) \<and> hd s \<noteq> chDQuote \<and> last s \<noteq> chDQuote \<and>
      hd s \<noteq> chSQuote \<and> last s \<noteq> chSQuote)"
  then have "trim s = s" "stripQuote chDQuote s = s" "stripQuote chSQuote s = s"
    by (auto simp: trim_id_iff stripQuote_id_iff)
  then show "trim (stripQuote chSQuote (trim (stripQuote chDQuote (trim s)))) = s"
    by simp
qed

text \<open>
  Claim C4, amended. For a non-empty string without angle brackets, given as the single
  \<open>from\<close> or \<open>to\<close> value, the email is the trimmed string; the name is absent exactly
  when \<open>extractNameFromAddressString\<close> gives the string back, and is that result
  otherwise. For such a string the extraction trims, removes one layer of double quotes,
  trims, removes one layer of single quotes and trims; it gives the string back exactly
  when the string neither starts nor ends with a trimmed character or a quote.
\<close>

theorem bracket_free_address:
  "s \<noteq> [] \<and> chLess \<notin> set s \<and> chGreater \<notin> set s \<longrightarrow>
   mapFromAddress (Some (AddrString s)) dn da
     = \<lparr>email = trim s,
        name = (if extractNameFromAddressString s = s then None else Some (extractNameFromAddressString s))\<rparr> \<and>
   mapAddresses (Some (One (AddrString s)))
     = [\<lparr>email = trim s,
         name = (if extractNameFromAddressString s = s then None else Some (extractNameFromAddressString s))\<rparr>] \<and>
   extractNameFromAddressString s = trim (stripQuote chSQuote (trim (stripQuote chDQuote (trim s)))) \<and>
   (extractNameFromAddressString s = s \<longleftrightarrow>
      \<not> isTrimmed (hd s) \<and> \<not> isTrimmed (last s) \<and> hd s \<noteq> chDQuote \<and> last s \<noteq> chDQuote \<and>
      hd s \<noteq> chSQuote \<and> last s \<noteq> chSQuote)"
proof (intro impI)
  assume h: "s \<noteq> [] \<and> chLess \<notin> set s \<and> chGreater \<notin> set s"
  then have e: "extractEmailFromAddressString s = trim s"
    by (simp add: extractEmail_bracket_free)
  from h have n: "extractNameFromAddressString s = trim (stripQuote chSQuote (trim (stripQuote chDQuote (trim s))))"
    by (simp add: extractName_bracket_free)
  from h n have i: "extractNameFromAddressString s = s \<longleftrightarrow>
      \<not> isTrimmed (hd s) \<and> \<not> isTrimmed (last s) \<and> hd s \<noteq> chDQuote \<and> last s \<noteq> chDQuote \<and>
      hd s \<noteq> chSQuote \<and> last s \<noteq> chSQuote"
    by (simp add: unquote_id_iff)
  from h e have f: "mapFromAddress (Some (AddrString s)) dn da
     = \<lparr>email = trim s,
        name = (if extractNameFromAddressString s = s then None else Some (extractNameFromAddressString s))\<rparr>"
    by (simp add: mapFromAddress_def nameOfString_def)
  from h e have t: "mapAddresses (Some (One (AddrString s)))
     = [\<lparr>email = trim s,
         name = (if extractNameFromAddressString s = s then None else Some (extractNameFromAddressString s))\<rparr>]"
    by (simp add: mapAddresses_def nameOfString_def)
  from f t n i show "mapFromAddress (Some (AddrString s)) dn da
     = \<lparr>email = trim s,
        name = (if extractNameFromAddressString s = s then None else Some (extractNameFromAddressString s))\<rparr> \<and>
   mapAddresses (Some (One (AddrString s)))
     = [\<lparr>email = trim s,
         name = (if extractNameFromAddressString s = s then None else Some (extractNameFromAddressString s))\<rparr>] \<and>
   extractNameFromAddressString s = trim (stripQuote chSQuote (trim (stripQuote chDQuote (trim s)))) \<and>
   (extractNameFromAddressString s = s \<longleftrightarrow>
      \<not> isTrimmed (hd s) \<and> \<not> isTrimmed (last s) \<and> hd s \<noteq> chDQuote \<and> last s \<noteq> chDQuote \<and>
      hd s \<noteq> chSQuote \<and> last s \<noteq> chSQuote)"
    by blast
qed

theorem bracket_free_name_counterexample:
  "chLess \<notin> set (js '' a@b '') \<and> chGreater \<notin> set (js '' a@b '') \<and>
   mapFromAddress (Some (AddrString (js '' a@b ''))) (js ''Zapal'') (js ''hello@zapal.tech'')
     = \<lparr>email = js ''a@b'', name = Some (js ''a@b'')\<rparr> \<and>
   mapAddresses (Some (One (AddrString (js ''\"a@b\"''))))
     = [\<lparr>email = js ''\"a@b\"'', name = Some (js ''a@b'')\<rparr>]"
  by code_simp

theorem bracket_free_address_witness:
  "js ''hello@zapal.tech'' \<noteq> [] \<and> chLess \<notin> set (js ''hello@zapal.tech'') \<and>
   chGreater \<notin> set (js ''hello@zapal.tech'') \<and>
   mapFromAddress (Some (AddrString (js ''hello@zapal.tech''))) (js ''Zapal'') (js ''hello+default@zapal.tech'')
     = \<lparr>email = js ''hello@zapal.tech'', name = None\<rparr> \<and>
   mapAddresses (Some (One (AddrString (js ''hello@zapal.tech''))))
     = [\<lparr>email = js ''hello@zapal.tech'', name = None\<rparr>]"
proof -
  let ?s = "js ''hello@zapal.tech''"
  have h: "?s \<noteq> [] \<and> chLess \<notin> set ?s \<and> chGreater \<notin> set ?s"
    by (simp add: string_eval)
  have p: "\<not> isTrimmed (hd ?s) \<and> \<not> isTrimmed (last ?s) \<and> hd ?s \<noteq> chDQuote \<and> last ?s \<noteq> chDQuote \<and>
      hd ?s \<noteq> chSQuote \<and> last ?s \<noteq> chSQuote"
    by (simp add: string_eval)
  have t: "trim ?s = ?s"
    by (simp add: string_eval)
  from bracket_free_address [of ?s "js ''Zapal''" "js ''hello+default@zapal.tech''"] h p
  have "extractNameFromAddressString ?s = ?s"
    and "mapFromAddress (Some (AddrString ?s)) (js ''Zapal'') (js ''hello+default@zapal.tech'')
     = \<lparr>email = trim ?s,
        name = (if extractNameFromAddressString ?s = ?s then None else Some (extractNameFromAddressString ?s))\<rparr>"
    and "mapAddresses (Some (One (AddrString ?s)))
     = [\<lparr>email = trim ?s,
         name = (if extractNameFromAddressString ?s = ?s then None else Some (extractNameFromAddressString ?s))\<rparr>]"
    by blast+
  with h t show ?thesis by simp
qed

lemma mapAddress_object:
  "mapAddress (AddrObject a)
     = \<lparr>email = extractEmailFromAddressString (address a),
        name = (if Address.name a = address a then None else Some (Address.name a))\<rparr>"
  by (simp add: mapAddress_def nameOfObject_def)

text \<open>
  Claim C5, amended. For a structured address the email is
  \<open>extractEmailFromAddressString\<close> of its \<open>address\<close>, and the name is the object's name,
  dropped exactly when it equals the address string: as \<open>from\<close>, as the single \<open>to\<close>, as
  an element of a \<open>to\<close> list and as the head of a reply-to list. The email is the address
  unchanged when the address has no trimmed character at its ends and no \<open><\<close> or no \<open>>\<close>.
\<close>

theorem structured_address:
  "mapFromAddress (Some (AddrObject a)) dn da
     = \<lparr>email = extractEmailFromAddressString (address a),
        name = (if Address.name a = address a then None else Some (Address.name a))\<rparr> \<and>
   mapAddresses (Some (One (AddrObject a)))
     = [\<lparr>email = extractEmailFromAddressString (address a),
         name = (if Address.name a = address a then None else Some (Address.name a))\<rparr>] \<and>
   (i < length as \<and> as ! i = AddrObject a \<longrightarrow>
      mapAddresses (Some (Many as)) ! i
        = \<lparr>email = extractEmailFromAddressString (address a),
           name = (if Address.name a = address a then None else Some (Address.name a))\<rparr>) \<and>
   mapReplyTo (Some (Many (AddrObject a # rest))) m
     = Inr (m\<lparr>p_reply_to :=
              Some \<lparr>email = extractEmailFromAddressString (address a),
                    name = (if Address.name a = address a then None else Some (Address.name a))\<rparr>\<rparr>) \<and>
   (trim (address a) = address a \<and> (chLess \<notin> set (address a) \<or> chGreater \<notin> set (address a))
      \<longrightarrow> extractEmailFromAddressString (address a) = address a)"
proof (intro conjI impI)
  show "mapFromAddress (Some (AddrObject a)) dn da
     = \<lparr>email = extractEmailFromAddressString (address a),
        name = (if Address.name a = address a then None else Some (Address.name a))\<rparr>"
    by (simp add: mapFromAddress_def nameOfObject_def)
  show "mapAddresses (Some (One (AddrObject a)))
     = [\<lparr>email = extractEmailFromAddressString (address a),
         name = (if Address.name a = address a then None else Some (Address.name a))\<rparr>]"
    by (simp add: mapAddresses_def nameOfObject_def)
  show "mapReplyTo (Some (Many (AddrObject a # rest))) m
     = Inr (m\<lparr>p_reply_to :=
              Some \<lparr>email = extractEmailFromAddressString (address a),
                    name = (if Address.name a = address a then None else Some (Address.name a))\<rparr>\<rparr>)"
    by (simp add: mapReplyTo_def mapAddresses_def mapAddress_object)
next
  assume "i < length as \<and> as ! i = AddrObject a"
  then show "mapAddresses (Some (Many as)) ! i
        = \<lparr>email = extractEmailFromAddressString (address a),
           name = (if Address.name a = address a then None else Some (Address.name a))\<rparr>"
    by (simp add: mapAddresses_def mapAddress_object)
next
  assume "trim (address a) = address a \<and> (chLess \<notin> set (address a) \<or> chGreater \<notin> set (address a))"
  then show "extractEmailFromAddressString (address a) = address a"
    by (simp add: extractEmail_bracket_free)
qed

theorem structured_address_counterexample:
  "email (mapFromAddress (Some (AddrObject paddedAddress)) (js ''Zapal'') (js ''hello+default@zapal.tech''))
     = js ''hello@zapal.tech'' \<and>
   address paddedAddress = js '' hello@zapal.tech '' \<and>
   email (mapFromAddress (Some (AddrObject paddedAddress)) (js ''Zapal'') (js ''hello+default@zapal.tech''))
     \<noteq> address paddedAddress"
  by code_simp

theorem structured_address_witness:
  "mapAddresses (Some (Many [AddrString (js ''a@b''), AddrObject plainAddress])) ! 1
     = \<lparr>email = js ''hello@zapal.tech'', name = Some (js ''Zapal'')\<rparr> \<and>
   trim (address plainAddress) = address plainAddress \<and> chLess \<notin> set (address plainAddress) \<and>
   extractEmailFromAddressString (address plainAddress) = address plainAddress"
proof -
  have 1: "trim (address plainAddress) = address plainAddress \<and> chLess \<notin> set (address plainAddress)"
    by (simp add: plainAddress_def string_eval)
  have 2: "(1::nat) < length [AddrString (js ''a@b''), AddrObject plainAddress] \<and>
           [AddrString (js ''a@b''), AddrObject plainAddress] ! 1 = AddrObject plainAddress"
    by simp
  note t = structured_address [of plainAddress _ _ 1 "[AddrString (js ''a@b''), AddrObject plainAddress]"]
  from t 1 have 3: "extractEmailFromAddressString (address plainAddress) = address plainAddress"
    by blast
  from t 2 have "mapAddresses (Some (Many [AddrString (js ''a@b''), AddrObject plainAddress])) ! 1
        = \<lparr>email = extractEmailFromAddressString (address plainAddress),
           name = (if Address.name plainAddress = address plainAddress then None else Some (Address.name plainAddress))\<rparr>"
    by blast
  with 3 have "mapAddresses (Some (Many [AddrString (js ''a@b''), AddrObject plainAddress])) ! 1
        = \<lparr>email = js ''hello@zapal.tech'', name = Some (js ''Zapal'')\<rparr>"
    by (simp add: plainAddress_def js_def)
  with 1 3 show ?thesis by simp
qed

lemma mapPayload_replyTo:
  assumes "mapAttachments (m_attachments message) = Inr atts"
  shows "\<exists>m0. mapPayloadEmailToSweegoEmail message da dn dr = mapReplyTo (m_replyTo message) m0 \<and>
              p_reply_to m0 = None"
  unfolding mapPayloadEmailToSweegoEmail_def assms sum.case Let_def
  by (rule exI, rule conjI, rule refl) (simp split: option.splits)

lemma unfoldNameOfString:
  "nameOfString s = (if extractNameFromAddressString s = s then None else Some (extractNameFromAddressString s))"
  by (simp add: nameOfString_def)

text \<open>
  Claim C2, amended. When the attachments are mapped without error: a non-empty reply-to
  list gives the payload a \<open>reply_to\<close> that is its first element parsed (a string by
  \<open>extractEmailFromAddressString\<close> and \<open>extractNameFromAddressString\<close>, the name left out
  when the extraction gives the string back; an object as in Claim C5); a structured
  reply-to gives its address parsed and its name, dropped when equal to the address; an
  absent reply-to, an empty string and an empty list give no \<open>reply_to\<close>.
\<close>

theorem reply_to_mapping:
  assumes "mapAttachments (m_attachments message) = Inr atts"
  shows
  "(m_replyTo message = Some (Many (x # xs)) \<longrightarrow>
      (\<exists>p. mapPayloadEmailToSweegoEmail message da dn dr = Inr p \<and>
           p_reply_to p = Some
             (case x of
                AddrString s \<Rightarrow>
                  \<lparr>email = extractEmailFromAddressString s,
                   name = (if extractNameFromAddressString s = s then None
                           else Some (extractNameFromAddressString s))\<rparr>
              | AddrObject a \<Rightarrow>
                  \<lparr>email = extractEmailFromAddressString (address a),
                   name = (if Address.name a = address a then None else Some (Address.name a))\<rparr>))) \<and>
   (m_replyTo message = Some (One (AddrObject b)) \<longrightarrow>
      (\<exists>p. mapPayloadEmailToSweegoEmail message da dn dr = Inr p \<and>
           p_reply_to p = Some
             \<lparr>email = extractEmailFromAddressString (address b),
              name = (if Address.name b = address b then None else Some (Address.name b))\<rparr>)) \<and>
   (m_replyTo message = None \<or> m_replyTo message = Some (One (AddrString [])) \<or>
    m_replyTo message = Some (Many []) \<longrightarrow>
      (\<exists>p. mapPayloadEmailToSweegoEmail message da dn dr = Inr p \<and> p_reply_to p = None))"
proof -
  from mapPayload_replyTo [OF assms, of da dn dr] obtain m0 where
    m: "mapPayloadEmailToSweegoEmail message da dn dr = mapReplyTo (m_replyTo message) m0"
    and n: "p_reply_to m0 = None"
    by blast
  show ?thesis
  proof (intro conjI impI)
    assume "m_replyTo message = Some (Many (x # xs))"
    with m show "\<exists>p. mapPayloadEmailToSweegoEmail message da dn dr = Inr p \<and>
           p_reply_to p = Some
             (case x of
                AddrString s \<Rightarrow>
                  \<lparr>email = extractEmailFromAddressString s,
                   name = (if extractNameFromAddressString s = s then None
                           else Some (extractNameFromAddressString s))\<rparr>
              | AddrObject a \<Rightarrow>
                  \<lparr>email = extractEmailFromAddressString (address a),
                   name = (if Address.name a = address a then None else Some (Address.name a))\<rparr>)"
      by (cases x) (simp_all add: mapReplyTo_def mapAddresses_def mapAddress_def unfoldNameOfString nameOfObject_def)
  next
    assume "m_replyTo message = Some (One (AddrObject b))"
    with m show "\<exists>p. mapPayloadEmailToSweegoEmail message da dn dr = Inr p \<and>
           p_reply_to p = Some
             \<lparr>email = extractEmailFromAddressString (address b),
              name = (if Address.name b = address b then None else Some (Address.name b))\<rparr>"
      by (simp add: mapReplyTo_def nameOfObject_def)
  next
    assume "m_replyTo message = None \<or> m_replyTo message = Some (One (AddrString [])) \<or>
      m_replyTo message = Some (Many [])"
    with m n show "\<exists>p. mapPayloadEmailToSweegoEmail message da dn dr = Inr p \<and> p_reply_to p = None"
      by (auto simp: mapReplyTo_def mapAddresses_def)
  qed
qed

theorem reply_to_counterexample:
  "map_sum id p_reply_to
     (mapPayloadEmailToSweegoEmail (demoMessage\<lparr>m_replyTo := Some (Many [])\<rparr>)
        (js ''hello+default@zapal.tech'') (js ''Zapal'') None) = Inr None \<and>
   mapPayloadEmailToSweegoEmail (demoMessage\<lparr>m_replyTo := Some (One (AddrString (js ''reply@zapal.tech'')))\<rparr>)
     (js ''hello+default@zapal.tech'') (js ''Zapal'') None = Inl TypeError"
proof -
  have a: "mapAttachments (m_attachments (demoMessage\<lparr>m_replyTo := r\<rparr>)) = Inr None" for r
    by (simp add: demoMessage_def mapAttachments_def)
  from mapPayload_replyTo [OF a, of "Some (Many [])" "js ''hello+default@zapal.tech''" "js ''Zapal''" None]
  have 1: "map_sum id p_reply_to
     (mapPayloadEmailToSweegoEmail (demoMessage\<lparr>m_replyTo := Some (Many [])\<rparr>)
        (js ''hello+default@zapal.tech'') (js ''Zapal'') None) = Inr None"
    by (auto simp: mapReplyTo_def mapAddresses_def)
  have s: "js ''reply@zapal.tech'' \<noteq> [] \<and> js ''reply@zapal.tech'' \<noteq> js ''string''"
    by (simp add: js_def)
  from mapPayload_replyTo [OF a, of "Some (One (AddrString (js ''reply@zapal.tech'')))"
      "js ''hello+default@zapal.tech''" "js ''Zapal''" None] s
  have 2: "mapPayloadEmailToSweegoEmail (demoMessage\<lparr>m_replyTo := Some (One (AddrString (js ''reply@zapal.tech'')))\<rparr>)
     (js ''hello+default@zapal.tech'') (js ''Zapal'') None = Inl TypeError"
    by (auto simp: mapReplyTo_def)
  from 1 2 show ?thesis by simp
qed

theorem reply_to_mapping_witness:
  "mapAttachments (m_attachments replyMessage) = Inr None \<and>
   (\<exists>p. mapPayloadEmailToSweegoEmail replyMessage (js ''hello+default@zapal.tech'') (js ''Zapal'') None = Inr p \<and>
        p_reply_to p = Some \<lparr>email = js ''help@zapal.tech'', name = Some (js ''Help'')\<rparr>)"
proof -
  have a: "mapAttachments (m_attachments replyMessage) = Inr None"
    by (simp add: replyMessage_def demoMessage_def mapAttachments_def)
  have r: "m_replyTo replyMessage = Some (Many [AddrString (js ''Help <help@zapal.tech>''),
      AddrString (js ''other@zapal.tech'')])"
    by (simp add: replyMessage_def)
  have e: "extractEmailFromAddressString (js ''Help <help@zapal.tech>'') = js ''help@zapal.tech''"
    "extractNameFromAddressString (js ''Help <help@zapal.tech>'') = js ''Help''"
    "js ''Help'' \<noteq> js ''Help <help@zapal.tech>''"
    by code_simp+
  from reply_to_mapping [OF a, of "AddrString (js ''Help <help@zapal.tech>'')" "[AddrString (js ''other@zapal.tech'')]"
      "js ''hello+default@zapal.tech''" "js ''Zapal''" None] r
  have "\<exists>p. mapPayloadEmailToSweegoEmail replyMessage (js ''hello+default@zapal.tech'') (js ''Zapal'') None = Inr p \<and>
           p_reply_to p = Some
                  \<lparr>email = extractEmailFromAddressString (js ''Help <help@zapal.tech>''),
                   name = (if extractNameFromAddressString (js ''Help <help@zapal.tech>'') = js ''Help <help@zapal.tech>'' then None
                           else Some (extractNameFromAddressString (js ''Help <help@zapal.tech>'')))\<rparr>"
    by simp
  with a e show ?thesis by simp
qed

section \<open>The round trip of a string attachment\<close>

text \<open>
  Claim C8, amended. For an attachment with a non-empty filename whose content is a
  non-empty, well-formed string, the mapped attachment holds the UTF-8 bytes of the
  string, decoding these bytes gives the string back, and the filename is unchanged.
\<close>

theorem string_attachment_roundtrip:
  "MailAttachment.filename a = Some f \<and> f \<noteq> [] \<and>
   MailAttachment.content a = Some (ContentString s) \<and> s \<noteq> [] \<and> wellFormed s
   \<longrightarrow> mapAttachment a = Inr \<lparr>content = Buffer_from s, filename = f\<rparr> \<and>
       Buffer_toString (Buffer_from s) = s"
proof (intro impI conjI)
  assume h: "MailAttachment.filename a = Some f \<and> f \<noteq> [] \<and>
   MailAttachment.content a = Some (ContentString s) \<and> s \<noteq> [] \<and> wellFormed s"
  then have "truthy (MailAttachment.filename a)" and "truthyContent (MailAttachment.content a)"
    by (simp_all add: truthy_def truthyContent_def)
  with h show "mapAttachment a = Inr \<lparr>content = Buffer_from s, filename = f\<rparr>"
    by (simp add: mapAttachment_def)
  from h have "wellFormed s" by simp
  then show "Buffer_toString (Buffer_from s) = s"
    by (rule Buffer_roundtrip)
qed

theorem string_attachment_roundtrip_witness:
  "wellFormed [0x48, 0xE9, 0x20AC, 0xD83D, 0xDE00] \<and>
   mapAttachment unicodeAttachment
     = Inr \<lparr>content = [0x48, 0xC3, 0xA9, 0xE2, 0x82, 0xAC, 0xF0, 0x9F, 0x98, 0x80],
            filename = js ''u.txt''\<rparr> \<and>
   Buffer_toString [0x48, 0xC3, 0xA9, 0xE2, 0x82, 0xAC, 0xF0, 0x9F, 0x98, 0x80]
     = [0x48, 0xE9, 0x20AC, 0xD83D, 0xDE00]"
proof -
  let ?s = "[0x48, 0xE9, 0x20AC, 0xD83D, 0xDE00] :: jsstring"
  have w: "wellFormed ?s"
    by (simp add: isHighSurrogate_def isLowSurrogate_def)
  have e: "Buffer_from ?s = [0x48, 0xC3, 0xA9, 0xE2, 0x82, 0xAC, 0xF0, 0x9F, 0x98, 0x80]"
    by (simp add: isHighSurrogate_def isLowSurrogate_def utf8Encode_def)
  have h: "MailAttachment.filename unicodeAttachment = Some (js ''u.txt'') \<and> js ''u.txt'' \<noteq> [] \<and>
           MailAttachment.content unicodeAttachment = Some (ContentString ?s) \<and> ?s \<noteq> []"
    by (simp add: unicodeAttachment_def js_def)
  from string_attachment_roundtrip [of unicodeAttachment "js ''u.txt''" ?s] h w
  have "mapAttachment unicodeAttachment = Inr \<lparr>content = Buffer_from ?s, filename = js ''u.txt''\<rparr>"
    and "Buffer_toString (Buffer_from ?s) = ?s"
    by blast+
  with w show ?thesis by (simp only: e)
qed

theorem lone_surrogate_counterexample:
  "mapAttachment loneSurrogateAttachment = Inr \<lparr>content = [0xEF, 0xBF, 0xBD], filename = js ''s.txt''\<rparr> \<and>
   Buffer_toString [0xEF, 0xBF, 0xBD] = [0xFFFD] \<and>
   Buffer_toString [0xEF, 0xBF, 0xBD] \<noteq> [0xD800]"
proof -
  have 1: "mapAttachment loneSurrogateAttachment
             = Inr \<lparr>content = [0xEF, 0xBF, 0xBD], filename = js ''s.txt''\<rparr>"
    by (simp add: loneSurrogateAttachment_def mapAttachment_def truthy_def truthyContent_def js_def
        isHighSurrogate_def isLowSurrogate_def utf8Encode_def)
  have 2: "Buffer_toString [0xEF, 0xBF, 0xBD] = [0xFFFD]"
    by (simp add: Buffer_toString.simps(2) isContinuation_def utf16_def)
  from 1 2 show ?thesis by simp
qed

end
